theory Spec2Isabelle
  imports Main "HOL-Library.Sublist"
begin

section \<open>Python values used by the DICOMweb client\<close>

text \<open>
  Text strings and byte strings are both lists of 8-bit characters. A text string
  holds code points below 256 (HTTP header values are decoded as Latin-1), a byte
  string holds bytes. JSON values are what \<^verbatim>\<open>json.loads\<close> returns and what
  \<^verbatim>\<open>json.dumps\<close> accepts.
\<close>

datatype json =
    JNull
  | JBool bool
  | JNum int
  | JStr string
  | JArr "json list"
  | JObj "(string \<times> json) list"

text \<open>\<^verbatim>\<open>httplib2.Response\<close>: a dictionary of (lower-case) header names with a
  \<^verbatim>\<open>status\<close> attribute.\<close>

record Response =
  status :: int
  resp_headers :: "(string \<times> string) list"

text \<open>The arguments of one \<^verbatim>\<open>http.request(uri, method, body, headers)\<close> call,
  together with the timeout set on the connection object.\<close>

record Request =
  rq_uri :: string
  rq_method :: string
  rq_timeout :: "int option"
  rq_body :: "string option"
  rq_headers :: "(string \<times> string) list option"

text \<open>Every exception the modelled code can raise is a value.\<close>

datatype error =
    UnexpectedResponseError string
  | ValueError string
  | IndexError
  | KeyError string
  | TypeError
  | AttributeError
  | TransportError string
  | RetryError nat Response string
  | NonMultipartContentTypeException string
  | ImproperBodyPartContentException
  | LibraryError string

type_synonym outcome = "error + (Response \<times> string)"

subsection \<open>String helpers of the Python runtime\<close>

definition CRLF :: string where
  "CRLF = [CHR 0x0D, CHR 0x0A]"

definition NL :: string where
  "NL = [CHR 0x0A]"

definition DQ :: char where
  "DQ = CHR 0x22"

definition digit_char :: "nat \<Rightarrow> char" where
  "digit_char n = ''0123456789'' ! (n mod 10)"

function str_nat :: "nat \<Rightarrow> string" where
  "str_nat n = (if n < 10 then [digit_char n] else str_nat (n div 10) @ [digit_char (n mod 10)])"
  by pat_completeness auto
termination
  by (relation "measure id") auto

declare str_nat.simps [simp del]

text \<open>\<^verbatim>\<open>'%d' % i\<close> and \<^verbatim>\<open>'%s' % i\<close> for an integer.\<close>

definition str_int :: "int \<Rightarrow> string" where
  "str_int i = (if i < 0 then CHR ''-'' # str_nat (nat (- i)) else str_nat (nat i))"

text \<open>\<^verbatim>\<open>sep.join(xs)\<close>.\<close>

fun join :: "string \<Rightarrow> string list \<Rightarrow> string" where
  "join sep [] = []"
| "join sep [x] = x"
| "join sep (x # y # ys) = x @ sep @ join sep (y # ys)"

text \<open>\<^verbatim>\<open>s.split(c)\<close> for a one-character separator: never empty, one more
  segment than there are separators.\<close>

fun split_char :: "char \<Rightarrow> string \<Rightarrow> string list" where
  "split_char c [] = [[]]"
| "split_char c (x # xs) =
     (if x = c then [] # split_char c xs
      else (case split_char c xs of
              [] \<Rightarrow> [[x]]
            | y # ys \<Rightarrow> (x # y) # ys))"

text \<open>\<^verbatim>\<open>s.find(sub)\<close>: the index of the first occurrence, \<open>None\<close> for \<^verbatim>\<open>-1\<close>.\<close>

fun py_find :: "string \<Rightarrow> string \<Rightarrow> nat option" where
  "py_find sub [] = (if sub = [] then Some 0 else None)"
| "py_find sub (x # xs) =
     (if prefix sub (x # xs) then Some 0 else map_option Suc (py_find sub xs))"

text \<open>\<^verbatim>\<open>s.split(sep)\<close> for a non-empty separator string, scanning left to right.\<close>

function split_sep :: "string \<Rightarrow> string \<Rightarrow> string \<Rightarrow> string list" where
  "split_sep sep acc [] = [rev acc]"
| "split_sep sep acc (x # xs) =
     (if sep \<noteq> [] \<and> prefix sep (x # xs)
      then rev acc # split_sep sep [] (drop (length sep) (x # xs))
      else split_sep sep (x # acc) xs)"
  by pat_completeness auto
termination
  by (relation "measure (\<lambda>(sep, acc, s). length s)") (auto simp: neq_Nil_conv)

text \<open>The characters \<^verbatim>\<open>str.isspace\<close> accepts below code point 256, and the bytes
  \<^verbatim>\<open>bytes.lstrip()\<close> removes.\<close>

definition str_space :: "char \<Rightarrow> bool" where
  "str_space c = (c \<in> set [CHR 0x09, CHR 0x0A, CHR 0x0B, CHR 0x0C, CHR 0x0D,
                          CHR 0x1C, CHR 0x1D, CHR 0x1E, CHR 0x1F, CHR 0x20,
                          CHR 0x85, CHR 0xA0])"

definition bytes_space :: "char \<Rightarrow> bool" where
  "bytes_space c = (c \<in> set [CHR 0x09, CHR 0x0A, CHR 0x0B, CHR 0x0C, CHR 0x0D, CHR 0x20])"

definition strip_with :: "(char \<Rightarrow> bool) \<Rightarrow> string \<Rightarrow> string" where
  "strip_with p s = rev (dropWhile p (rev (dropWhile p s)))"

text \<open>\<^verbatim>\<open>s.lower()\<close> on code points below 256.\<close>

definition lower_char :: "char \<Rightarrow> char" where
  "lower_char c =
     (let n = (of_char c :: nat)
      in if (65 \<le> n \<and> n \<le> 90) \<or> (192 \<le> n \<and> n \<le> 222 \<and> n \<noteq> 215)
         then char_of (n + 32) else c)"

definition lower :: "string \<Rightarrow> string" where
  "lower s = map lower_char s"

text \<open>\<^verbatim>\<open>s.encode('utf-8')\<close> on code points below 256.\<close>

definition utf8_char :: "char \<Rightarrow> string" where
  "utf8_char c =
     (let n = (of_char c :: nat)
      in if n < 128 then [c] else [char_of (192 + n div 64), char_of (128 + n mod 64)])"

definition encode_with :: "string \<Rightarrow> string" where
  "encode_with s = concat (map utf8_char s)"

section \<open>The environment of a call\<close>

text \<open>
  What the client does not decide itself is a parameter: the server (the outcome of a
  transport call, which may depend on every request issued so far, the current one
  last), the random source behind \<^verbatim>\<open>uuid.uuid4\<close>, the JSON codec of the standard
  library and the header parser (\<^verbatim>\<open>email.parser\<close> after UTF-8 decoding) used by the
  multipart decoder.
\<close>

record env =
  server :: "Request list \<Rightarrow> outcome"
  uuid4 :: "nat \<Rightarrow> string"
  json_dumps :: "json \<Rightarrow> string"
  json_loads :: "string \<Rightarrow> error + json"
  header_parser :: "string \<Rightarrow> error + (string \<times> string) list"

text \<open>The observable effects of a call: the requests put on the wire, the waits
  (in milliseconds) slept between attempts, and how many UUIDs were drawn.\<close>

record world =
  sent :: "Request list"
  slept :: "int list"
  uuid_drawn :: nat

section \<open>Transport and retry\<close>

definition TOO_MANY_REQUESTS_ERROR :: int where
  "TOO_MANY_REQUESTS_ERROR = 429"

definition REQUEST_TIMEOUT :: int where
  "REQUEST_TIMEOUT = 408"

definition SERVICE_UNAVAILABLE :: int where
  "SERVICE_UNAVAILABLE = 503"

definition GATEWAY_TIMEOUT :: int where
  "GATEWAY_TIMEOUT = 504"

text \<open>\<^verbatim>\<open>_IsRetriableHTTPError\<close>.\<close>

definition IsRetriableHTTPError :: "Response \<times> string \<Rightarrow> bool" where
  "IsRetriableHTTPError ret_value =
     (case ret_value of (resp, _) \<Rightarrow>
        status resp \<in> set [TOO_MANY_REQUESTS_ERROR, REQUEST_TIMEOUT,
                            SERVICE_UNAVAILABLE, GATEWAY_TIMEOUT])"

text \<open>\<^verbatim>\<open>DicomWebClientImpl._NotHttp2xx\<close>; \<open>div\<close> on \<open>int\<close> rounds down, as
  Python's \<^verbatim>\<open>//\<close> does.\<close>

definition NotHttp2xx :: "int \<Rightarrow> bool" where
  "NotHttp2xx s = (s div 100 \<noteq> 2)"

text \<open>The body of \<^verbatim>\<open>_InvokeHttpRequest\<close> without its decorator: one round trip.
  The request is logged and the server's outcome for it is the result. Credentials
  are opaque. Whether a connection failure surfaces as an exception or, through
  \<^verbatim>\<open>force_exception_to_status_code\<close>, as a response is part of the outcome: an
  exception raised by \<^verbatim>\<open>http.request\<close> is an \<open>Inl\<close> outcome.\<close>

definition http_request :: "env \<Rightarrow> Request \<Rightarrow> world \<Rightarrow> outcome \<times> world" where
  "http_request e rq w =
     (let s = sent w @ [rq] in (server e s, w\<lparr>sent := s\<rparr>))"

text \<open>
  The decorator \<^verbatim>\<open>retrying.retry\<close>, with the options the client passes. The package
  \<^verbatim>\<open>retrying\<close> is a dependency of the repository, not part of its sources; the
  definitions below follow the package's \<^verbatim>\<open>Retrying\<close> class (\<^verbatim>\<open>should_reject\<close>,
  \<^verbatim>\<open>stop_after_attempt\<close>, \<^verbatim>\<open>exponential_sleep\<close>, \<^verbatim>\<open>call\<close>), and the options
  are those of the source. \<open>Retrying_call\<close> is the loop of \<^verbatim>\<open>Retrying.call\<close>,
  which starts with attempt number 1: an attempt that is not rejected is returned; a
  rejected one either stops the loop or is followed by a sleep and the next attempt.
  With no \<^verbatim>\<open>retry_on_exception\<close> option every exception is rejected
  (\<^verbatim>\<open>always_reject\<close>); a result is rejected when \<^verbatim>\<open>retry_on_result\<close> holds. When
  the loop stops, the exception of the last attempt is raised again, or
  \<^verbatim>\<open>RetryError\<close> wraps the last attempt when it was a result. The exponential wait
  is \<^verbatim>\<open>multiplier * 2 ** previous_attempt_number\<close>, capped at the maximum; no
  jitter is configured.
\<close>

record retry_options =
  retry_on_result :: "Response \<times> string \<Rightarrow> bool"
  wait_exponential_multiplier :: int
  wait_exponential_max :: int
  stop_max_attempt_number :: nat

definition should_reject :: "retry_options \<Rightarrow> outcome \<Rightarrow> bool" where
  "should_reject opts attempt =
     (case attempt of Inl _ \<Rightarrow> True | Inr r \<Rightarrow> retry_on_result opts r)"

definition stop_after_attempt :: "retry_options \<Rightarrow> nat \<Rightarrow> bool" where
  "stop_after_attempt opts previous_attempt_number =
     (previous_attempt_number \<ge> stop_max_attempt_number opts)"

definition exponential_sleep :: "retry_options \<Rightarrow> nat \<Rightarrow> int" where
  "exponential_sleep opts previous_attempt_number =
     (let exp = 2 ^ previous_attempt_number;
          result = wait_exponential_multiplier opts * exp;
          result = (if result > wait_exponential_max opts
                    then wait_exponential_max opts else result)
      in if result < 0 then 0 else result)"

text \<open>The wait is the largest of the enabled wait functions: the constant 0 and
  \<open>exponential_sleep\<close>.\<close>

definition wait :: "retry_options \<Rightarrow> nat \<Rightarrow> int" where
  "wait opts previous_attempt_number =
     max 0 (exponential_sleep opts previous_attempt_number)"

function Retrying_call ::
  "retry_options \<Rightarrow> (world \<Rightarrow> outcome \<times> world) \<Rightarrow> nat \<Rightarrow> world \<Rightarrow> outcome \<times> world" where
  "Retrying_call opts fn attempt_number w =
     (let (attempt, w1) = fn w
      in if \<not> should_reject opts attempt then (attempt, w1)
         else if stop_after_attempt opts attempt_number
         then (case attempt of
                 Inl exn \<Rightarrow> (Inl exn, w1)
               | Inr (resp, content) \<Rightarrow> (Inl (RetryError attempt_number resp content), w1))
         else Retrying_call opts fn (Suc attempt_number)
                (w1\<lparr>slept := slept w1 @ [wait opts attempt_number]\<rparr>))"
  by pat_completeness auto
termination
  by (relation "measure (\<lambda>(opts, fn, n, w). stop_max_attempt_number opts - n)")
     (auto simp: stop_after_attempt_def)

declare Retrying_call.simps [simp del]

definition invoke_options :: retry_options where
  "invoke_options =
     \<lparr>retry_on_result = IsRetriableHTTPError,
      wait_exponential_multiplier = 2000,
      wait_exponential_max = 32000,
      stop_max_attempt_number = 5\<rparr>"

text \<open>\<^verbatim>\<open>DicomWebClientImpl._InvokeHttpRequest\<close>, decorated.\<close>

definition InvokeHttpRequest ::
  "env \<Rightarrow> string \<Rightarrow> string \<Rightarrow> int option \<Rightarrow> string option \<Rightarrow>
   (string \<times> string) list option \<Rightarrow> world \<Rightarrow> outcome \<times> world" where
  "InvokeHttpRequest e uri method timeout body headers w =
     Retrying_call invoke_options
       (http_request e \<lparr>rq_uri = uri, rq_method = method, rq_timeout = timeout,
                         rq_body = body, rq_headers = headers\<rparr>) 1 w"

section \<open>Multipart codec\<close>

subsection \<open>Encoding: \<^verbatim>\<open>urllib3.fields.RequestField\<close> and \<^verbatim>\<open>urllib3.filepost\<close>\<close>

text \<open>The packages \<^verbatim>\<open>urllib3\<close> and \<^verbatim>\<open>requests_toolbelt\<close> are dependencies of the
  repository, not part of its sources; the codec below follows the functions the
  client calls in them. A part's headers are a dictionary in insertion order. The
  data of a part is either text (\<^verbatim>\<open>str\<close>), which the encoder writes as UTF-8, or
  bytes, which it copies.\<close>

datatype field_data = Text string | Bytes string

record RequestField =
  rf_name :: string
  rf_data :: field_data
  rf_headers :: "(string \<times> string) list"

definition sort_keys :: "string list" where
  "sort_keys = [''Content-Disposition'', ''Content-Type'', ''Content-Location'']"

text \<open>\<^verbatim>\<open>RequestField.render_headers\<close>: the three well-known headers first, then the
  others in dictionary order, empty values skipped, every line ended by CR LF and
  the block by an empty line.\<close>

definition render_headers :: "RequestField \<Rightarrow> string" where
  "render_headers f =
     (let known = concat (map (\<lambda>k. case map_of (rf_headers f) k of
                                        None \<Rightarrow> []
                                      | Some v \<Rightarrow> if v = [] then [] else [k @ '': '' @ v])
                              sort_keys);
          other = concat (map (\<lambda>(k, v). if k \<notin> set sort_keys \<and> v \<noteq> []
                                          then [k @ '': '' @ v] else [])
                              (rf_headers f))
      in join CRLF (known @ other @ [CRLF]))"

text \<open>One round of the loop of \<^verbatim>\<open>encode_multipart_formdata\<close>: the boundary line,
  the rendered headers through the UTF-8 writer, the data (text through the UTF-8
  writer, bytes as they are), and CR LF.\<close>

definition encode_field :: "string \<Rightarrow> RequestField \<Rightarrow> string" where
  "encode_field boundary f =
     ''--'' @ boundary @ CRLF @ encode_with (render_headers f) @
     (case rf_data f of Text t \<Rightarrow> encode_with t | Bytes b \<Rightarrow> b) @ CRLF"

text \<open>\<^verbatim>\<open>encode_multipart_formdata(fields, boundary)\<close>, the body it returns.\<close>

definition encode_multipart_formdata :: "RequestField list \<Rightarrow> string \<Rightarrow> string" where
  "encode_multipart_formdata flds boundary =
     concat (map (encode_field boundary) flds) @ ''--'' @ boundary @ ''--'' @ CRLF"

subsection \<open>Decoding: \<^verbatim>\<open>requests_toolbelt.multipart.decoder\<close>\<close>

record BodyPart =
  content :: string
  part_headers :: "(string \<times> string) list"

text \<open>\<^verbatim>\<open>_split_on_find(content, bound)\<close>; when \<open>bound\<close> does not occur, \<^verbatim>\<open>find\<close>
  gives \<^verbatim>\<open>-1\<close> and the two slices are taken with that index.\<close>

definition split_on_find :: "string \<Rightarrow> string \<Rightarrow> string \<times> string" where
  "split_on_find cont bound =
     (case py_find bound cont of
        Some point \<Rightarrow> (take point cont, drop (point + length bound) cont)
      | None \<Rightarrow> (butlast cont, drop (length bound - 1) cont))"

text \<open>\<^verbatim>\<open>MultipartDecoder._find_boundary\<close>: the last \<^verbatim>\<open>boundary\<close> attribute of the
  content type wins; \<open>None\<close> when the attribute is never assigned. A split is
  never empty, so the two \<open>[]\<close> cases are not reached.\<close>

definition find_boundary :: "string \<Rightarrow> error + string option" where
  "find_boundary content_type =
     (case map (strip_with str_space) (split_char CHR '';'' content_type) of
        [] \<Rightarrow> Inr None
      | mimetype # items \<Rightarrow>
          (case split_char CHR ''/'' mimetype of
             [] \<Rightarrow> Inr None
           | major # _ \<Rightarrow>
               if lower major \<noteq> ''multipart''
               then Inl (NonMultipartContentTypeException mimetype)
               else Inr (fold (\<lambda>item b. case split_on_find item ''='' of
                                           (attr, val) \<Rightarrow>
                                             if lower attr = ''boundary''
                                             then Some (encode_with (strip_with (\<lambda>c. c = DQ) val))
                                             else b)
                              items None)))"

text \<open>\<^verbatim>\<open>BodyPart.__init__\<close>: the part is cut at the first empty line; the header
  block, without leading white space, goes to the header parser.\<close>

definition body_part_init :: "env \<Rightarrow> string \<Rightarrow> error + BodyPart" where
  "body_part_init e cont =
     (if py_find (CRLF @ CRLF) cont \<noteq> None
      then (case split_on_find cont (CRLF @ CRLF) of
              (first, rest) \<Rightarrow>
                if first \<noteq> []
                then (case header_parser e (dropWhile bytes_space first) of
                        Inl err \<Rightarrow> Inl err
                      | Inr hs \<Rightarrow> Inr \<lparr>content = rest, part_headers = hs\<rparr>)
                else Inr \<lparr>content = rest, part_headers = []\<rparr>)
      else Inl ImproperBodyPartContentException)"

definition fix_first_part :: "string \<Rightarrow> string \<Rightarrow> string" where
  "fix_first_part part boundary_marker =
     (let bm_len = length boundary_marker
      in if boundary_marker = take bm_len part then drop bm_len part else part)"

definition test_part :: "string \<Rightarrow> bool" where
  "test_part part =
     (part \<noteq> [] \<and> part \<noteq> CRLF \<and> take 4 part \<noteq> ''--'' @ CRLF \<and> part \<noteq> ''--'')"

text \<open>The generator of \<^verbatim>\<open>_parse_body\<close>: parts are built in order and the first
  exception ends the construction.\<close>

fun body_parts :: "env \<Rightarrow> string \<Rightarrow> string list \<Rightarrow> error + BodyPart list" where
  "body_parts e marker [] = Inr []"
| "body_parts e marker (x # xs) =
     (if test_part x
      then (case body_part_init e (fix_first_part x marker) of
              Inl err \<Rightarrow> Inl err
            | Inr p \<Rightarrow> (case body_parts e marker xs of
                          Inl err \<Rightarrow> Inl err
                        | Inr ps \<Rightarrow> Inr (p # ps)))
      else body_parts e marker xs)"

definition parse_body :: "env \<Rightarrow> string \<Rightarrow> string \<Rightarrow> error + BodyPart list" where
  "parse_body e bnd cont =
     (let marker = ''--'' @ bnd
      in body_parts e marker (split_sep (CRLF @ marker) [] cont))"

text \<open>\<^verbatim>\<open>MultipartDecoder(content, content_type)\<close>, its \<^verbatim>\<open>parts\<close>.\<close>

definition MultipartDecoder :: "env \<Rightarrow> string \<Rightarrow> string \<Rightarrow> error + BodyPart list" where
  "MultipartDecoder e cont content_type =
     (case find_boundary content_type of
        Inl err \<Rightarrow> Inl err
      | Inr None \<Rightarrow> Inl AttributeError
      | Inr (Some bnd) \<Rightarrow> parse_body e bnd cont)"

text \<open>Header lookup in a part (\<^verbatim>\<open>CaseInsensitiveDict\<close>): names compare without
  ASCII case, the last item of a name wins.\<close>

definition bytes_lower :: "string \<Rightarrow> string" where
  "bytes_lower s =
     map (\<lambda>c. let n = (of_char c :: nat) in if 65 \<le> n \<and> n \<le> 90 then char_of (n + 32) else c) s"

definition part_header :: "BodyPart \<Rightarrow> string \<Rightarrow> string option" where
  "part_header p k =
     map_of (rev (map (\<lambda>(n, v). (bytes_lower n, v)) (part_headers p))) (bytes_lower k)"

section \<open>The four operations of \<^verbatim>\<open>DicomWebClientImpl\<close>\<close>

text \<open>The message every operation puts into \<^verbatim>\<open>UnexpectedResponseError\<close> for a
  status outside 2xx: \<^verbatim>\<open>'<Op> error. Response Status: %d,\nURL: %s,\nContent: %s.'\<close>.
  The content is typed \<^verbatim>\<open>str\<close> in the source and is inserted as it is.\<close>

definition status_error_message :: "string \<Rightarrow> int \<Rightarrow> string \<Rightarrow> string \<Rightarrow> string" where
  "status_error_message op st url cont =
     op @ '' error. Response Status: '' @ str_int st @ '','' @ NL @
     ''URL: '' @ url @ '','' @ NL @ ''Content: '' @ cont @ ''.''"

definition QidoRs :: "env \<Rightarrow> string \<Rightarrow> int option \<Rightarrow> world \<Rightarrow> (error + json) \<times> world" where
  "QidoRs e qido_url timeout w =
     (case InvokeHttpRequest e qido_url ''GET'' timeout None None w of
        (Inl exn, w1) \<Rightarrow> (Inl exn, w1)
      | (Inr (resp, cont), w1) \<Rightarrow>
          if NotHttp2xx (status resp)
          then (Inl (UnexpectedResponseError
                       (status_error_message ''QidoRs'' (status resp) qido_url cont)), w1)
          else if status resp = 204 then (Inr (JArr []), w1)
          else (json_loads e cont, w1))"

definition wado_parts_message :: "nat \<Rightarrow> string \<Rightarrow> string" where
  "wado_parts_message num_parts wado_url =
     ''WadoRs multipart response expected to have a single part. Actual: '' @
     str_int (int num_parts) @ ''.'' @ NL @ ''URL: '' @ wado_url"

definition WadoRs ::
  "env \<Rightarrow> string \<Rightarrow> string option \<Rightarrow> int option \<Rightarrow> world \<Rightarrow> (error + string) \<times> world" where
  "WadoRs e wado_url accept_header timeout w =
     (case InvokeHttpRequest e wado_url ''GET'' timeout None
             (Some (case accept_header of
                      Some a \<Rightarrow> [(''Accept'', a)]
                    | None \<Rightarrow> [])) w of
        (Inl exn, w1) \<Rightarrow> (Inl exn, w1)
      | (Inr (resp, cont), w1) \<Rightarrow>
          if NotHttp2xx (status resp)
          then (Inl (UnexpectedResponseError
                       (status_error_message ''WadoRs'' (status resp) wado_url cont)), w1)
          else (case map_of (resp_headers resp) ''content-type'' of
                  None \<Rightarrow> (Inl (KeyError ''content-type''), w1)
                | Some ct \<Rightarrow>
                    (case MultipartDecoder e cont ct of
                       Inl err \<Rightarrow> (Inl err, w1)
                     | Inr parts \<Rightarrow>
                         (let num_parts = length parts
                          in if num_parts \<noteq> 1
                             then (Inl (UnexpectedResponseError
                                          (wado_parts_message num_parts wado_url)), w1)
                             else (Inr (content (parts ! 0)), w1)))))"

text \<open>\<^verbatim>\<open>_StowRs\<close>: a fresh boundary, the multipart body, one POST, the status check.\<close>

definition stow_content_type :: "string \<Rightarrow> string \<Rightarrow> string" where
  "stow_content_type application_type boundary =
     ''multipart/related; type='' @ [DQ] @ ''application/'' @ application_type @ [DQ] @
     ''; boundary='' @ [DQ] @ boundary @ [DQ]"

definition StowRs_priv ::
  "env \<Rightarrow> string \<Rightarrow> string \<Rightarrow> RequestField list \<Rightarrow> int option \<Rightarrow> world \<Rightarrow>
   (error + unit) \<times> world" where
  "StowRs_priv e stow_url application_type parts timeout w =
     (let boundary = uuid4 e (uuid_drawn w);
          w0 = w\<lparr>uuid_drawn := Suc (uuid_drawn w)\<rparr>;
          hdrs = [(''content-type'', stow_content_type application_type boundary)];
          body = encode_multipart_formdata parts boundary
      in case InvokeHttpRequest e stow_url ''POST'' timeout (Some body) (Some hdrs) w0 of
           (Inl exn, w1) \<Rightarrow> (Inl exn, w1)
         | (Inr (resp, cont), w1) \<Rightarrow>
             if NotHttp2xx (status resp)
             then (Inl (UnexpectedResponseError
                          (status_error_message ''StowRs'' (status resp) stow_url cont)), w1)
             else (Inr (), w1))"

text \<open>The loop of \<^verbatim>\<open>StowRs\<close> that builds \<^verbatim>\<open>parts\<close>.\<close>

definition StowRs_parts :: "string list \<Rightarrow> RequestField list" where
  "StowRs_parts dcmbytes_list =
     map (\<lambda>dcmbytes. \<lparr>rf_name = ''placeholder'', rf_data = Bytes dcmbytes,
                       rf_headers = [(''Content-Type'', ''application/'' @ ''dicom'')]\<rparr>)
         dcmbytes_list"

definition StowRs ::
  "env \<Rightarrow> string \<Rightarrow> string list \<Rightarrow> int option \<Rightarrow> world \<Rightarrow> (error + unit) \<times> world" where
  "StowRs e stow_url dcmbytes_list timeout w =
     StowRs_priv e stow_url ''dicom'' (StowRs_parts dcmbytes_list) timeout w"

text \<open>Modelled from the spec: \<^verbatim>\<open>dicom_json.DicomBulkData\<close> is not among the sources.
  A unit of bulk data has a \<^verbatim>\<open>uri\<close>, raw \<^verbatim>\<open>data\<close> and a MIME \<^verbatim>\<open>content_type\<close>,
  the three attributes the client reads.\<close>

record DicomBulkData =
  uri :: string
  data :: string
  content_type :: string

text \<open>The bulk data loop of \<^verbatim>\<open>StowRsJson\<close>: it appends one part per entry and
  raises at the first content type that is not of the form type/sub-type.\<close>

fun bulkdata_parts :: "DicomBulkData list \<Rightarrow> RequestField list \<Rightarrow> error + RequestField list" where
  "bulkdata_parts [] parts = Inr parts"
| "bulkdata_parts (bulkdata # rest) parts =
     (let type_split = split_char CHR ''/'' (content_type bulkdata)
      in if length type_split \<noteq> 2
         then Inl (ValueError (''MIME type must be in form '' @ [DQ] @ ''type/sub-type'' @ [DQ]))
         else bulkdata_parts rest
                (parts @ [\<lparr>rf_name = uri bulkdata, rf_data = Bytes (data bulkdata),
                            rf_headers = [(''Content-Location'', uri bulkdata),
                                          (''Content-Type'', content_type bulkdata)]\<rparr>]))"

text \<open>The part list \<^verbatim>\<open>StowRsJson\<close> builds: the JSON part, then the bulk data.\<close>

definition StowRsJson_parts ::
  "env \<Rightarrow> json list \<Rightarrow> DicomBulkData list \<Rightarrow> error + RequestField list" where
  "StowRsJson_parts e dicom_dict_list bulkdata_list =
     (let jsonstr = json_dumps e (JArr dicom_dict_list);
          part = \<lparr>rf_name = ''placeholder'', rf_data = Text jsonstr,
                   rf_headers = [(''Content-Type'', ''application/'' @ ''dicom+json'')]\<rparr>
      in bulkdata_parts bulkdata_list [part])"

definition StowRsJson ::
  "env \<Rightarrow> string \<Rightarrow> json list \<Rightarrow> DicomBulkData list \<Rightarrow> int option \<Rightarrow> world \<Rightarrow>
   (error + unit) \<times> world" where
  "StowRsJson e stow_url dicom_dict_list bulkdata_list timeout w =
     (case StowRsJson_parts e dicom_dict_list bulkdata_list of
        Inl exn \<Rightarrow> (Inl exn, w)
      | Inr parts \<Rightarrow> StowRs_priv e stow_url ''dicom+json'' parts timeout w)"

definition DeleteRs :: "env \<Rightarrow> string \<Rightarrow> int option \<Rightarrow> world \<Rightarrow> (error + unit) \<times> world" where
  "DeleteRs e delete_url timeout w =
     (case InvokeHttpRequest e delete_url ''DELETE'' timeout None None w of
        (Inl exn, w1) \<Rightarrow> (Inl exn, w1)
      | (Inr (resp, cont), w1) \<Rightarrow>
          if NotHttp2xx (status resp)
          then (Inl (UnexpectedResponseError
                       (status_error_message ''DeleteRs'' (status resp) delete_url cont)), w1)
          else (Inr (), w1))"

section \<open>Convenience queries\<close>

text \<open>The abstract \<^verbatim>\<open>DicomWebClient\<close>: the helpers only call its \<^verbatim>\<open>QidoRs\<close>, with
  the default timeout of 3600 seconds.\<close>

record DicomWebClient =
  dwc_QidoRs :: "string \<Rightarrow> int option \<Rightarrow> world \<Rightarrow> (error + json) \<times> world"

definition DicomWebClientImpl :: "env \<Rightarrow> DicomWebClient" where
  "DicomWebClientImpl e = \<lparr>dwc_QidoRs = QidoRs e\<rparr>"

text \<open>Python's \<^verbatim>\<open>resp[0]\<close> on a parsed JSON value.\<close>

fun getitem0 :: "json \<Rightarrow> error + json" where
  "getitem0 (JArr []) = Inl IndexError"
| "getitem0 (JArr (x # _)) = Inr x"
| "getitem0 (JObj _) = Inl (KeyError ''0'')"
| "getitem0 (JStr []) = Inl IndexError"
| "getitem0 (JStr (c # _)) = Inr (JStr [c])"
| "getitem0 _ = Inl TypeError"

definition GetStudyMetadata ::
  "DicomWebClient \<Rightarrow> string \<Rightarrow> string \<Rightarrow> world \<Rightarrow> (error + json) \<times> world" where
  "GetStudyMetadata dwc dicomweb_url study_uid w =
     (let qido_study_url =
            dicomweb_url @ ''/studies?StudyInstanceUID='' @ study_uid @ ''&includefield=all''
      in case dwc_QidoRs dwc qido_study_url (Some 3600) w of
           (Inl exn, w1) \<Rightarrow> (Inl exn, w1)
         | (Inr resp, w1) \<Rightarrow> (getitem0 resp, w1))"

text \<open>Modelled from the spec: \<^verbatim>\<open>tags.DicomTag\<close> is not among the sources. A tag has
  a \<^verbatim>\<open>number\<close>, the text the client puts after \<^verbatim>\<open>includefield=\<close>, and a value
  representation.\<close>

record DicomTag =
  number :: string
  vr :: string

text \<open>\<^verbatim>\<open>dicom_path.DicomPathJoin\<close> is not among the sources and is a parameter of
  \<open>GetInstancesMetadata\<close>.\<close>

definition GetInstancesMetadata ::
  "(string list \<Rightarrow> string) \<Rightarrow> DicomWebClient \<Rightarrow> string \<Rightarrow> string \<Rightarrow> DicomTag list \<Rightarrow> int \<Rightarrow>
   world \<Rightarrow> (error + json) \<times> world" where
  "GetInstancesMetadata DicomPathJoin dwc dicomweb_url study_uid tag_list limit w =
     (let qido_study_url = DicomPathJoin [dicomweb_url, ''studies'', study_uid, ''instances''];
          suffix = join ''&'' (map (\<lambda>tag. ''includefield='' @ number tag) tag_list);
          suffix = suffix @ ''&limit='' @ str_int limit;
          qido_study_url = qido_study_url @ ''/?'' @ suffix
      in dwc_QidoRs dwc qido_study_url (Some 3600) w)"

section \<open>Properties stated about results, and example environments\<close>

text \<open>An operation result that is an \<^verbatim>\<open>UnexpectedResponseError\<close> whose message
  contains the decimal status code and the URL.\<close>

fun cites_status_and_url :: "error + 'a \<Rightarrow> int \<Rightarrow> string \<Rightarrow> bool" where
  "cites_status_and_url (Inl (UnexpectedResponseError msg)) st url =
     (sublist (str_int st) msg \<and> sublist url msg)"
| "cites_status_and_url _ st url = False"

text \<open>An operation result that is an \<^verbatim>\<open>UnexpectedResponseError\<close> whose message
  contains a part count.\<close>

fun cites_part_count :: "error + 'a \<Rightarrow> nat \<Rightarrow> bool" where
  "cites_part_count (Inl (UnexpectedResponseError msg)) n = sublist (str_int (int n)) msg"
| "cites_part_count _ n = False"

fun is_ValueError :: "error + 'a \<Rightarrow> bool" where
  "is_ValueError (Inl (ValueError msg)) = True"
| "is_ValueError _ = False"

text \<open>A content type that \<^verbatim>\<open>StowRsJson\<close> accepts.\<close>

definition valid_mime :: "string \<Rightarrow> bool" where
  "valid_mime ct = (length (split_char CHR ''/'' ct) = 2)"

text \<open>Example environments: a server with a fixed reply, a server whose first
  transport call raises, a fixed UUID, and small stand-ins for the JSON codec and
  the header parser.\<close>

definition reply :: "int \<Rightarrow> (string \<times> string) list \<Rightarrow> string \<Rightarrow> outcome" where
  "reply st hs cont = Inr (\<lparr>status = st, resp_headers = hs\<rparr>, cont)"

definition example_uuid :: string where
  "example_uuid = ''1b4e28ba-2fa1-41d2-883f-0016d3cca427''"

definition example_env :: "(Request list \<Rightarrow> outcome) \<Rightarrow> env" where
  "example_env srv =
     \<lparr>server = srv,
      uuid4 = (\<lambda>n. example_uuid),
      json_dumps = (\<lambda>j. case j of
                           JArr xs \<Rightarrow> ''['' @ join '', '' (map (\<lambda>x. ''{}'') xs) @ '']''
                         | _ \<Rightarrow> ''null''),
      json_loads = (\<lambda>s. if s = ''[]'' then Inr (JArr [])
                         else if s = ''[{}]'' then Inr (JArr [JObj []])
                         else Inl (LibraryError ''JSONDecodeError'')),
      header_parser = (\<lambda>s. case py_find '': '' s of
                              None \<Rightarrow> Inr []
                            | Some i \<Rightarrow> Inr [(take i s, drop (i + 2) s)])\<rparr>"

definition always :: "outcome \<Rightarrow> Request list \<Rightarrow> outcome" where
  "always out reqs = out"


definition new_world :: world where
  "new_world = \<lparr>sent = [], slept = [], uuid_drawn = 0\<rparr>"

definition get_request :: "string \<Rightarrow> int option \<Rightarrow> Request" where
  "get_request url timeout =
     \<lparr>rq_uri = url, rq_method = ''GET'', rq_timeout = timeout, rq_body = None,
      rq_headers = None\<rparr>"

definition two_part_body :: string where
  "two_part_body = encode_multipart_formdata (StowRs_parts [''abc'', ''de'']) example_uuid"

definition one_part_body :: string where
  "one_part_body = encode_multipart_formdata (StowRs_parts [''abc'']) example_uuid"

definition related_header :: "(string \<times> string) list" where
  "related_header = [(''content-type'', stow_content_type ''dicom'' example_uuid)]"

text \<open>A client that answers every query with the URL it was asked, and a plain
  stand-in for \<^verbatim>\<open>DicomPathJoin\<close>.\<close>

definition echo_client :: DicomWebClient where
  "echo_client = \<lparr>dwc_QidoRs = (\<lambda>url timeout w. (Inr (JArr [JStr url]), w))\<rparr>"

definition slash_join :: "string list \<Rightarrow> string" where
  "slash_join xs = join ''/'' xs"

text \<open>An attempt the retry loop rejects, and the world after \<open>k\<close> rejected attempts
  of one request.\<close>

definition rejected :: "outcome \<Rightarrow> bool" where
  "rejected out = (case out of Inl _ \<Rightarrow> True | Inr r \<Rightarrow> IsRetriableHTTPError r)"

definition after_attempts :: "world \<Rightarrow> Request \<Rightarrow> nat \<Rightarrow> world" where
  "after_attempts w rq k =
     w\<lparr>sent := sent w @ replicate k rq,
       slept := slept w @ map (wait invoke_options) [1..<Suc k]\<rparr>"

text \<open>The characters of \<^verbatim>\<open>str(uuid.uuid4())\<close>, and the header line of a raw DICOM
  part.\<close>

definition uuid_chars :: "char set" where
  "uuid_chars = set ''0123456789abcdef-''"

definition dicom_line :: string where
  "dicom_line = ''Content-Type: application/dicom''"

text \<open>The parts \<^verbatim>\<open>StowRsJson\<close> makes of its arguments, and the request \<^verbatim>\<open>_StowRs\<close>
  puts on the wire for a list of parts.\<close>

definition json_part :: "env \<Rightarrow> json list \<Rightarrow> RequestField" where
  "json_part e dicom_dict_list =
     \<lparr>rf_name = ''placeholder'', rf_data = Text (json_dumps e (JArr dicom_dict_list)),
      rf_headers = [(''Content-Type'', ''application/dicom+json'')]\<rparr>"

definition bulk_part :: "DicomBulkData \<Rightarrow> RequestField" where
  "bulk_part bulkdata =
     \<lparr>rf_name = uri bulkdata, rf_data = Bytes (data bulkdata),
      rf_headers = [(''Content-Location'', uri bulkdata),
                    (''Content-Type'', content_type bulkdata)]\<rparr>"

definition stow_request ::
  "env \<Rightarrow> world \<Rightarrow> string \<Rightarrow> string \<Rightarrow> RequestField list \<Rightarrow> int option \<Rightarrow> Request" where
  "stow_request e w stow_url application_type parts timeout =
     \<lparr>rq_uri = stow_url, rq_method = ''POST'', rq_timeout = timeout,
      rq_body = Some (encode_multipart_formdata parts (uuid4 e (uuid_drawn w))),
      rq_headers = Some [(''content-type'',
                          stow_content_type application_type (uuid4 e (uuid_drawn w)))]\<rparr>"

section \<open>Shared lemmas\<close>

subsection \<open>One step of the retry loop\<close>

lemma retry_accept:
  assumes "server e (sent w @ [rq]) = Inr r" and "\<not> IsRetriableHTTPError r"
  shows "Retrying_call invoke_options (http_request e rq) n w = (Inr r, w\<lparr>sent := sent w @ [rq]\<rparr>)"
  using assms
  by (subst Retrying_call.simps)
     (simp add: http_request_def should_reject_def invoke_options_def Let_def)

lemma retry_again:
  assumes "server e (sent w @ [rq]) = Inl x \<or>
           (\<exists>r. server e (sent w @ [rq]) = Inr r \<and> IsRetriableHTTPError r)"
    and "n < 5"
  shows "Retrying_call invoke_options (http_request e rq) n w =
         Retrying_call invoke_options (http_request e rq) (Suc n)
           (w\<lparr>sent := sent w @ [rq], slept := slept w @ [wait invoke_options n]\<rparr>)"
  using assms
  by (subst Retrying_call.simps)
     (auto simp: http_request_def should_reject_def invoke_options_def Let_def
        stop_after_attempt_def)

lemma retry_stop_result:
  assumes "server e (sent w @ [rq]) = Inr (resp, cont)" and "IsRetriableHTTPError (resp, cont)"
    and "5 \<le> n"
  shows "Retrying_call invoke_options (http_request e rq) n w =
         (Inl (RetryError n resp cont), w\<lparr>sent := sent w @ [rq]\<rparr>)"
  using assms
  by (subst Retrying_call.simps)
     (simp add: http_request_def should_reject_def invoke_options_def Let_def
        stop_after_attempt_def)

lemma retry_stop_exception:
  assumes "server e (sent w @ [rq]) = Inl x" and "5 \<le> n"
  shows "Retrying_call invoke_options (http_request e rq) n w =
         (Inl x, w\<lparr>sent := sent w @ [rq]\<rparr>)"
  using assms
  by (subst Retrying_call.simps)
     (simp add: http_request_def should_reject_def invoke_options_def Let_def
        stop_after_attempt_def)

lemma wait_formula:
  "wait invoke_options n = min (2000 * 2 ^ n) 32000"
  by (simp add: wait_def exponential_sleep_def invoke_options_def Let_def min_def max_def)

lemma not_retriable_examples:
  "\<not> IsRetriableHTTPError (\<lparr>status = 404, resp_headers = hs\<rparr>, c)"
  "\<not> IsRetriableHTTPError (\<lparr>status = 200, resp_headers = hs\<rparr>, c)"
  "\<not> IsRetriableHTTPError (\<lparr>status = 204, resp_headers = hs\<rparr>, c)"
  by (simp_all add: IsRetriableHTTPError_def TOO_MANY_REQUESTS_ERROR_def REQUEST_TIMEOUT_def
       SERVICE_UNAVAILABLE_def GATEWAY_TIMEOUT_def)

lemma invoke_example:
  assumes "\<not> IsRetriableHTTPError (\<lparr>status = st, resp_headers = hs\<rparr>, c)"
  shows "InvokeHttpRequest (example_env (always (reply st hs c))) url m t b h w =
     (Inr (\<lparr>status = st, resp_headers = hs\<rparr>, c),
      w\<lparr>sent := sent w @ [\<lparr>rq_uri = url, rq_method = m, rq_timeout = t, rq_body = b,
                              rq_headers = h\<rparr>]\<rparr>)"
  unfolding InvokeHttpRequest_def
  by (rule retry_accept) (simp_all add: example_env_def always_def reply_def assms)

subsection \<open>Error messages\<close>

lemma sublist_status_message:
  "sublist (str_int st) (status_error_message op st url cont)"
  unfolding status_error_message_def
  by (metis sublist_appendI append.assoc)

lemma sublist_url_message:
  "sublist url (status_error_message op st url cont)"
  unfolding status_error_message_def sublist_def
  by (rule exI [of _ "op @ '' error. Response Status: '' @ str_int st @ '','' @ NL @ ''URL: ''"],
      rule exI [of _ "'','' @ NL @ ''Content: '' @ cont @ ''.''"]) simp

lemma sublist_count_message:
  "sublist (str_int (int n)) (wado_parts_message n url)"
  unfolding wado_parts_message_def sublist_def
  by (rule exI [of _ "''WadoRs multipart response expected to have a single part. Actual: ''"],
      rule exI [of _ "''.'' @ NL @ ''URL: '' @ url"]) simp

subsection \<open>Example evaluations\<close>

lemma example_loads:
  "json_loads (example_env srv) ''[{}]'' = Inr (JArr [JObj []])"
  by (simp add: example_env_def)

lemma decode_two_parts:
  "MultipartDecoder (example_env srv) two_part_body (stow_content_type ''dicom'' example_uuid)
     = Inr [\<lparr>content = ''abc'', part_headers = [(''Content-Type'', ''application/dicom'')]\<rparr>,
            \<lparr>content = ''de'', part_headers = [(''Content-Type'', ''application/dicom'')]\<rparr>]"
  by code_simp

lemma decode_one_part:
  "MultipartDecoder (example_env srv) one_part_body (stow_content_type ''dicom'' example_uuid)
     = Inr [\<lparr>content = ''abc'', part_headers = [(''Content-Type'', ''application/dicom'')]\<rparr>]"
  by code_simp

section \<open>The operation layer\<close>

text \<open>
  The status check of the operations. When \<^verbatim>\<open>_InvokeHttpRequest\<close> hands back a
  response whose status \<open>s\<close> satisfies \<open>s div 100 \<noteq> 2\<close>, each of QidoRs, WadoRs,
  StowRs, StowRsJson and DeleteRs raises \<^verbatim>\<open>UnexpectedResponseError\<close>, and the
  message contains the decimal status code and the request URL. The wrapper hands
  back no response with a retriable status (\<open>Retrying_call_returns_terminal\<close>), so
  this covers the statuses outside 2xx other than 429, 408, 503 and 504.
\<close>

lemma returned_non_2xx_raises_UnexpectedResponseError:
  assumes "status resp div 100 \<noteq> 2"
  shows "(InvokeHttpRequest e url ''GET'' timeout None None w = (Inr (resp, cont), w1) \<longrightarrow>
            cites_status_and_url (fst (QidoRs e url timeout w)) (status resp) url) \<and>
         (InvokeHttpRequest e url ''GET'' timeout None
            (Some (case accept_header of Some a \<Rightarrow> [(''Accept'', a)] | None \<Rightarrow> [])) w
            = (Inr (resp, cont), w1) \<longrightarrow>
            cites_status_and_url (fst (WadoRs e url accept_header timeout w)) (status resp) url) \<and>
         (InvokeHttpRequest e url ''POST'' timeout
            (Some (encode_multipart_formdata (StowRs_parts dcmbytes_list) (uuid4 e (uuid_drawn w))))
            (Some [(''content-type'', stow_content_type ''dicom'' (uuid4 e (uuid_drawn w)))])
            (w\<lparr>uuid_drawn := Suc (uuid_drawn w)\<rparr>) = (Inr (resp, cont), w1) \<longrightarrow>
            cites_status_and_url (fst (StowRs e url dcmbytes_list timeout w)) (status resp) url) \<and>
         (StowRsJson_parts e dicom_dict_list bulkdata_list = Inr parts \<and>
          InvokeHttpRequest e url ''POST'' timeout
            (Some (encode_multipart_formdata parts (uuid4 e (uuid_drawn w))))
            (Some [(''content-type'', stow_content_type ''dicom+json'' (uuid4 e (uuid_drawn w)))])
            (w\<lparr>uuid_drawn := Suc (uuid_drawn w)\<rparr>) = (Inr (resp, cont), w1) \<longrightarrow>
            cites_status_and_url
              (fst (StowRsJson e url dicom_dict_list bulkdata_list timeout w)) (status resp) url) \<and>
         (InvokeHttpRequest e url ''DELETE'' timeout None None w = (Inr (resp, cont), w1) \<longrightarrow>
            cites_status_and_url (fst (DeleteRs e url timeout w)) (status resp) url)"
  using assms
  by (simp add: QidoRs_def WadoRs_def StowRs_def StowRsJson_def StowRs_priv_def DeleteRs_def
        Let_def NotHttp2xx_def sublist_status_message sublist_url_message)

lemma returned_non_2xx_example:
  "cites_status_and_url
     (fst (QidoRs (example_env (always (reply 404 [] ''no such study''))) ''https://h/studies''
             (Some 3600) new_world)) 404 ''https://h/studies'' \<and>
   cites_status_and_url
     (fst (WadoRs (example_env (always (reply 404 [] ''no such study''))) ''https://h/studies''
             None (Some 3600) new_world)) 404 ''https://h/studies'' \<and>
   cites_status_and_url
     (fst (StowRs (example_env (always (reply 404 [] ''no such study''))) ''https://h/studies''
             [''abc''] (Some 3600) new_world)) 404 ''https://h/studies'' \<and>
   cites_status_and_url
     (fst (StowRsJson (example_env (always (reply 404 [] ''no such study''))) ''https://h/studies''
             [JObj []] [] (Some 3600) new_world)) 404 ''https://h/studies'' \<and>
   cites_status_and_url
     (fst (DeleteRs (example_env (always (reply 404 [] ''no such study''))) ''https://h/studies''
             (Some 3600) new_world)) 404 ''https://h/studies''"
  using returned_non_2xx_raises_UnexpectedResponseError
    [of "\<lparr>status = 404, resp_headers = []\<rparr>"
        "example_env (always (reply 404 [] ''no such study''))" "''https://h/studies''"
        "Some 3600" new_world "''no such study''" _ None "[''abc'']" "[JObj []]" "[]"]
  by (simp add: invoke_example not_retriable_examples StowRsJson_parts_def)

text \<open>
  C7. When the response handed to QidoRs has status 204, QidoRs returns the empty
  list and raises nothing; for every other 2xx status it returns what \<^verbatim>\<open>json.loads\<close>
  makes of the response body.
\<close>

theorem QidoRs_204_empty_else_parsed:
  assumes "InvokeHttpRequest e qido_url ''GET'' timeout None None w = (Inr (resp, cont), w1)"
  shows "(status resp = 204 \<longrightarrow> QidoRs e qido_url timeout w = (Inr (JArr []), w1)) \<and>
         (status resp div 100 = 2 \<and> status resp \<noteq> 204 \<longrightarrow>
            QidoRs e qido_url timeout w = (json_loads e cont, w1))"
  using assms by (simp add: QidoRs_def NotHttp2xx_def)

theorem QidoRs_204_empty_else_parsed_witness:
  "QidoRs (example_env (always (reply 204 [] []))) ''https://h/studies'' (Some 3600) new_world
     = (Inr (JArr []), new_world\<lparr>sent := [get_request ''https://h/studies'' (Some 3600)]\<rparr>) \<and>
   QidoRs (example_env (always (reply 200 [] ''[{}]''))) ''https://h/studies'' (Some 3600) new_world
     = (Inr (JArr [JObj []]), new_world\<lparr>sent := [get_request ''https://h/studies'' (Some 3600)]\<rparr>)"
  using QidoRs_204_empty_else_parsed
     [of "example_env (always (reply 204 [] []))" "''https://h/studies''" "Some 3600"
         new_world "\<lparr>status = 204, resp_headers = []\<rparr>" "[]"]
    QidoRs_204_empty_else_parsed
     [of "example_env (always (reply 200 [] ''[{}]''))" "''https://h/studies''" "Some 3600"
         new_world "\<lparr>status = 200, resp_headers = []\<rparr>" "''[{}]''"]
  by (simp add: invoke_example not_retriable_examples new_world_def get_request_def
        example_loads)

text \<open>
  C5. When the response handed to WadoRs is 2xx and the multipart decoder yields a
  list of parts, WadoRs raises \<^verbatim>\<open>UnexpectedResponseError\<close> with a message that
  contains the part count if that count is not 1, and returns the payload of the
  single part if it is.
\<close>

theorem WadoRs_single_part:
  assumes "InvokeHttpRequest e wado_url ''GET'' timeout None
             (Some (case accept_header of Some a \<Rightarrow> [(''Accept'', a)] | None \<Rightarrow> [])) w
           = (Inr (resp, cont), w1)"
    and "status resp div 100 = 2"
    and "map_of (resp_headers resp) ''content-type'' = Some ct"
    and "MultipartDecoder e cont ct = Inr parts"
  shows "(length parts \<noteq> 1 \<longrightarrow>
            cites_part_count (fst (WadoRs e wado_url accept_header timeout w)) (length parts)) \<and>
         (\<forall>p. parts = [p] \<longrightarrow>
            WadoRs e wado_url accept_header timeout w = (Inr (content p), w1))"
  using assms by (auto simp: WadoRs_def NotHttp2xx_def sublist_count_message)

theorem WadoRs_single_part_witness:
  "cites_part_count
     (fst (WadoRs (example_env (always (reply 200 related_header two_part_body)))
             ''https://h/studies/1/series/2/instances/3'' (Some ''multipart/related'')
             (Some 3600) new_world)) 2 \<and>
   fst (WadoRs (example_env (always (reply 200 related_header one_part_body)))
          ''https://h/studies/1/series/2/instances/3'' (Some ''multipart/related'')
          (Some 3600) new_world) = Inr ''abc''"
  using WadoRs_single_part
     [of "example_env (always (reply 200 related_header two_part_body))"
         "''https://h/studies/1/series/2/instances/3''" "Some 3600" "Some ''multipart/related''"
         new_world "\<lparr>status = 200, resp_headers = related_header\<rparr>" two_part_body _
         "stow_content_type ''dicom'' example_uuid"
         "[\<lparr>content = ''abc'', part_headers = [(''Content-Type'', ''application/dicom'')]\<rparr>,
           \<lparr>content = ''de'', part_headers = [(''Content-Type'', ''application/dicom'')]\<rparr>]"]
    WadoRs_single_part
     [of "example_env (always (reply 200 related_header one_part_body))"
         "''https://h/studies/1/series/2/instances/3''" "Some 3600" "Some ''multipart/related''"
         new_world "\<lparr>status = 200, resp_headers = related_header\<rparr>" one_part_body _
         "stow_content_type ''dicom'' example_uuid"
         "[\<lparr>content = ''abc'', part_headers = [(''Content-Type'', ''application/dicom'')]\<rparr>]"]
  by (simp add: invoke_example not_retriable_examples decode_two_parts decode_one_part
        related_header_def numeral_2_eq_2)

lemma bulkdata_parts_invalid:
  "\<exists>b \<in> set bs. \<not> valid_mime (content_type b) \<Longrightarrow>
   is_ValueError (bulkdata_parts bs parts)"
  by (induction bs arbitrary: parts) (auto simp: Let_def valid_mime_def)

text \<open>
  C6. When some entry of \<^verbatim>\<open>bulkdata_list\<close> has a content type that does not split
  into exactly two segments at \<^verbatim>\<open>/\<close>, StowRsJson raises \<^verbatim>\<open>ValueError\<close> and leaves
  the world as it found it: no request is sent, no UUID is drawn, nothing is slept.
\<close>

theorem StowRsJson_invalid_content_type:
  assumes "\<exists>b \<in> set bulkdata_list. length (split_char CHR ''/'' (content_type b)) \<noteq> 2"
  shows "is_ValueError (fst (StowRsJson e stow_url dicom_dict_list bulkdata_list timeout w)) \<and>
         snd (StowRsJson e stow_url dicom_dict_list bulkdata_list timeout w) = w"
proof -
  from assms have "is_ValueError (StowRsJson_parts e dicom_dict_list bulkdata_list)"
    unfolding StowRsJson_parts_def Let_def
    by (intro bulkdata_parts_invalid) (simp add: valid_mime_def)
  then obtain msg where "StowRsJson_parts e dicom_dict_list bulkdata_list = Inl (ValueError msg)"
    by (auto elim: is_ValueError.elims)
  then show ?thesis by (simp add: StowRsJson_def)
qed

theorem StowRsJson_invalid_content_type_witness:
  "is_ValueError
     (fst (StowRsJson (example_env (always (reply 200 [] [])))
             ''https://h/studies'' [JObj []]
             [\<lparr>uri = ''https://h/bulk/1'', data = ''abc'', content_type = ''image''\<rparr>]
             (Some 3600) new_world)) \<and>
   snd (StowRsJson (example_env (always (reply 200 [] [])))
          ''https://h/studies'' [JObj []]
          [\<lparr>uri = ''https://h/bulk/1'', data = ''abc'', content_type = ''image''\<rparr>]
          (Some 3600) new_world) = new_world"
  using StowRsJson_invalid_content_type
     [of "[\<lparr>uri = ''https://h/bulk/1'', data = ''abc'', content_type = ''image''\<rparr>]"
         "example_env (always (reply 200 [] []))" "''https://h/studies''" "[JObj []]"
         "Some 3600" new_world]
  by simp

section \<open>Convenience queries: the URLs and the first result\<close>

lemma join_map_suffix:
  "xs \<noteq> [] \<Longrightarrow> join sep (map f xs) @ sep @ rest = concat (map (\<lambda>x. f x @ sep) xs) @ rest"
proof (induction xs)
  case Nil
  then show ?case by simp
next
  case (Cons x xs)
  then show ?case by (cases xs) auto
qed

text \<open>
  C10. GetInstancesMetadata queries the URL made of the joined path
  (dicomweb_url, studies, study_uid, instances), then \<^verbatim>\<open>/?\<close>, then one
  \<^verbatim>\<open>includefield=<number>\<close> per tag in order, joined by \<^verbatim>\<open>&\<close>, then
  \<^verbatim>\<open>&limit=<limit>\<close>. With an empty tag list the query string is
  \<^verbatim>\<open>?&limit=<limit>\<close>: a leading \<^verbatim>\<open>&\<close> and no includefield parameter.
\<close>

theorem GetInstancesMetadata_url:
  "GetInstancesMetadata DicomPathJoin dwc dicomweb_url study_uid tag_list limit w =
     dwc_QidoRs dwc
       (DicomPathJoin [dicomweb_url, ''studies'', study_uid, ''instances''] @ ''/?'' @
        join ''&'' (map (\<lambda>tag. ''includefield='' @ number tag) tag_list) @
        ''&limit='' @ str_int limit) (Some 3600) w \<and>
   (tag_list \<noteq> [] \<longrightarrow>
      GetInstancesMetadata DicomPathJoin dwc dicomweb_url study_uid tag_list limit w =
        dwc_QidoRs dwc
          (DicomPathJoin [dicomweb_url, ''studies'', study_uid, ''instances''] @ ''/?'' @
           concat (map (\<lambda>tag. ''includefield='' @ number tag @ ''&'') tag_list) @
           ''limit='' @ str_int limit) (Some 3600) w) \<and>
   (tag_list = [] \<longrightarrow>
      GetInstancesMetadata DicomPathJoin dwc dicomweb_url study_uid tag_list limit w =
        dwc_QidoRs dwc
          (DicomPathJoin [dicomweb_url, ''studies'', study_uid, ''instances''] @
           ''/?&limit='' @ str_int limit) (Some 3600) w)"
proof -
  define base where "base = DicomPathJoin [dicomweb_url, ''studies'', study_uid, ''instances'']"
  define fields where
    "fields = join ''&'' (map (\<lambda>tag. ''includefield='' @ number tag) tag_list)"
  have call: "GetInstancesMetadata DicomPathJoin dwc dicomweb_url study_uid tag_list limit w =
      dwc_QidoRs dwc (base @ ''/?'' @ fields @ ''&limit='' @ str_int limit) (Some 3600) w"
    by (simp add: GetInstancesMetadata_def Let_def base_def fields_def)
  have some: "fields @ ''&limit='' @ str_int limit =
      concat (map (\<lambda>tag. ''includefield='' @ number tag @ ''&'') tag_list) @
      ''limit='' @ str_int limit" if "tag_list \<noteq> []"
    using join_map_suffix [OF that, of "''&''" "\<lambda>tag. ''includefield='' @ number tag"
                              "''limit='' @ str_int limit"]
    by (simp add: fields_def)
  have none: "base @ ''/?'' @ fields @ ''&limit='' @ str_int limit =
      base @ ''/?&limit='' @ str_int limit" if "tag_list = []"
    using that by (simp add: fields_def)
  show ?thesis
  proof (intro conjI impI)
    show "GetInstancesMetadata DicomPathJoin dwc dicomweb_url study_uid tag_list limit w =
      dwc_QidoRs dwc
       (DicomPathJoin [dicomweb_url, ''studies'', study_uid, ''instances''] @ ''/?'' @
        join ''&'' (map (\<lambda>tag. ''includefield='' @ number tag) tag_list) @
        ''&limit='' @ str_int limit) (Some 3600) w"
      using call by (simp only: base_def fields_def)
  next
    assume "tag_list \<noteq> []"
    from call show "GetInstancesMetadata DicomPathJoin dwc dicomweb_url study_uid tag_list limit w =
        dwc_QidoRs dwc
          (DicomPathJoin [dicomweb_url, ''studies'', study_uid, ''instances''] @ ''/?'' @
           concat (map (\<lambda>tag. ''includefield='' @ number tag @ ''&'') tag_list) @
           ''limit='' @ str_int limit) (Some 3600) w"
      by (simp only: some [OF \<open>tag_list \<noteq> []\<close>] base_def)
  next
    assume "tag_list = []"
    from call show "GetInstancesMetadata DicomPathJoin dwc dicomweb_url study_uid tag_list limit w =
        dwc_QidoRs dwc
          (DicomPathJoin [dicomweb_url, ''studies'', study_uid, ''instances''] @
           ''/?&limit='' @ str_int limit) (Some 3600) w"
      using \<open>tag_list = []\<close> by (simp add: base_def fields_def)
  qed
qed

lemma str_int_10: "str_int 10 = ''10''"
  by code_simp

theorem GetInstancesMetadata_url_witness:
  "GetInstancesMetadata slash_join echo_client ''https://h/dicomWeb'' ''1.2.3''
     [\<lparr>number = ''00080018'', vr = ''UI''\<rparr>, \<lparr>number = ''00200013'', vr = ''IS''\<rparr>] 10 new_world
   = (Inr (JArr [JStr ''https://h/dicomWeb/studies/1.2.3/instances/?includefield=00080018&includefield=00200013&limit=10'']),
      new_world) \<and>
   GetInstancesMetadata slash_join echo_client ''https://h/dicomWeb'' ''1.2.3'' [] 10 new_world
   = (Inr (JArr [JStr ''https://h/dicomWeb/studies/1.2.3/instances/?&limit=10'']), new_world)"
  using GetInstancesMetadata_url
     [of slash_join echo_client "''https://h/dicomWeb''" "''1.2.3''"
         "[\<lparr>number = ''00080018'', vr = ''UI''\<rparr>, \<lparr>number = ''00200013'', vr = ''IS''\<rparr>]" 10 new_world]
    GetInstancesMetadata_url
     [of slash_join echo_client "''https://h/dicomWeb''" "''1.2.3''" "[]" 10 new_world]
  by (simp add: echo_client_def slash_join_def str_int_10)

text \<open>
  C8, as stated, fails: on an empty query result (here a 204 reply) GetStudyMetadata
  raises the \<^verbatim>\<open>IndexError\<close> of the unguarded \<^verbatim>\<open>resp[0]\<close>, not a domain error.
\<close>

theorem GetStudyMetadata_empty_counterexample:
  "fst (GetStudyMetadata (DicomWebClientImpl (example_env (always (reply 204 [] []))))
          ''https://h/dicomWeb'' ''1.2.3'' new_world) = Inl IndexError"
  by (simp add: GetStudyMetadata_def DicomWebClientImpl_def QidoRs_def invoke_example
        not_retriable_examples NotHttp2xx_def)

text \<open>
  C8, amended. GetStudyMetadata queries
  \<^verbatim>\<open><dicomweb_url>/studies?StudyInstanceUID=<study_uid>&includefield=all\<close> and returns
  the first element of the result list; when the list is empty it raises
  \<^verbatim>\<open>IndexError\<close>.
\<close>

theorem GetStudyMetadata_first_or_IndexError:
  assumes "dwc_QidoRs dwc
             (dicomweb_url @ ''/studies?StudyInstanceUID='' @ study_uid @ ''&includefield=all'')
             (Some 3600) w = (Inr (JArr results), w1)"
  shows "GetStudyMetadata dwc dicomweb_url study_uid w =
           ((case results of [] \<Rightarrow> Inl IndexError | first # _ \<Rightarrow> Inr first), w1)"
  using assms by (simp add: GetStudyMetadata_def split: list.splits)

theorem GetStudyMetadata_first_or_IndexError_witness:
  "GetStudyMetadata (DicomWebClientImpl (example_env (always (reply 200 [] ''[{}]''))))
     ''https://h/dicomWeb'' ''1.2.3'' new_world
   = (Inr (JObj []),
      new_world\<lparr>sent := [get_request
          ''https://h/dicomWeb/studies?StudyInstanceUID=1.2.3&includefield=all'' (Some 3600)]\<rparr>)"
  using GetStudyMetadata_first_or_IndexError
     [of "DicomWebClientImpl (example_env (always (reply 200 [] ''[{}]'')))"
         "''https://h/dicomWeb''" "''1.2.3''" new_world "[JObj []]"
         "new_world\<lparr>sent := [get_request
            ''https://h/dicomWeb/studies?StudyInstanceUID=1.2.3&includefield=all'' (Some 3600)]\<rparr>"]
  by (simp add: DicomWebClientImpl_def QidoRs_def invoke_example not_retriable_examples
        NotHttp2xx_def example_loads new_world_def get_request_def)

section \<open>The retry policy\<close>

subsection \<open>The retry loop as a whole\<close>

lemma Retrying_call_sent:
  assumes "Retrying_call invoke_options (http_request e rq) n w = (r, w')"
    and "1 \<le> n" and "n \<le> 5"
  shows "\<exists>k. 1 \<le> k \<and> k + n \<le> 6 \<and> sent w' = sent w @ replicate k rq \<and>
             uuid_drawn w' = uuid_drawn w \<and> prefix (slept w) (slept w')"
  using assms
proof (induction "5 - n" arbitrary: n w)
  case 0
  then have n5: "n = 5" by simp
  show ?case
  proof (cases "server e (sent w @ [rq])")
    case (Inl x)
    from retry_stop_exception [OF Inl, of n] 0(2) n5
    have "w' = w\<lparr>sent := sent w @ [rq]\<rparr>" by simp
    then show ?thesis using n5 by (intro exI [of _ 1]) simp
  next
    case (Inr rc)
    obtain resp cont where rc: "rc = (resp, cont)" by (cases rc)
    show ?thesis
    proof (cases "IsRetriableHTTPError rc")
      case True
      from retry_stop_result [of e w rq resp cont n] Inr rc True 0(2) n5
      have "w' = w\<lparr>sent := sent w @ [rq]\<rparr>" by simp
      then show ?thesis using n5 by (intro exI [of _ 1]) simp
    next
      case False
      from retry_accept [OF Inr False, of n] 0(2)
      have "w' = w\<lparr>sent := sent w @ [rq]\<rparr>" by simp
      then show ?thesis using n5 by (intro exI [of _ 1]) simp
    qed
  qed
next
  case (Suc m)
  then have n4: "n < 5" by simp
  show ?case
  proof (cases "server e (sent w @ [rq]) = Inl (projl (server e (sent w @ [rq]))) \<or>
                (\<exists>rc. server e (sent w @ [rq]) = Inr rc \<and> IsRetriableHTTPError rc)")
    case True
    let ?w2 = "w\<lparr>sent := sent w @ [rq], slept := slept w @ [wait invoke_options n]\<rparr>"
    from retry_again [OF True n4] Suc.prems(1)
    have call: "Retrying_call invoke_options (http_request e rq) (Suc n) ?w2 = (r, w')" by simp
    have m: "m = 5 - Suc n" using Suc.hyps(2) by simp
    have "1 \<le> Suc n" "Suc n \<le> 5" using n4 by simp_all
    from Suc.hyps(1) [OF m call this]
    obtain k where "1 \<le> k" "k + Suc n \<le> 6" "sent w' = sent ?w2 @ replicate k rq"
      "uuid_drawn w' = uuid_drawn ?w2" "prefix (slept ?w2) (slept w')" by auto
    then show ?thesis
      by (intro exI [of _ "Suc k"]) (auto simp: replicate_app_Cons_same dest: append_prefixD)
  next
    case False
    then obtain rc where Inr: "server e (sent w @ [rq]) = Inr rc" and nr: "\<not> IsRetriableHTTPError rc"
      by (cases "server e (sent w @ [rq])") auto
    from retry_accept [OF Inr nr, of n] Suc.prems(1)
    have "w' = w\<lparr>sent := sent w @ [rq]\<rparr>" by simp
    then show ?thesis using n4 by (intro exI [of _ 1]) simp
  qed
qed


lemma Retrying_call_returns_terminal:
  assumes "Retrying_call invoke_options (http_request e rq) n w = (Inr r, w')"
    and "1 \<le> n" and "n \<le> 5"
  shows "\<not> IsRetriableHTTPError r"
  using assms
proof (induction "5 - n" arbitrary: n w)
  case 0
  then have n5: "n = 5" by simp
  show ?case
  proof (cases "server e (sent w @ [rq])")
    case (Inl y)
    from retry_stop_exception [OF Inl, of n] 0(2) n5 show ?thesis by simp
  next
    case (Inr rc)
    obtain resp cont where rc: "rc = (resp, cont)" by (cases rc)
    show ?thesis
    proof (cases "IsRetriableHTTPError rc")
      case True
      from retry_stop_result [of e w rq resp cont n] Inr rc True 0(2) n5
      show ?thesis by simp
    next
      case False
      from retry_accept [OF Inr False, of n] 0(2) False show ?thesis by simp
    qed
  qed
next
  case (Suc m)
  then have n4: "n < 5" by simp
  show ?case
  proof (cases "server e (sent w @ [rq]) = Inl (projl (server e (sent w @ [rq]))) \<or>
                (\<exists>rc. server e (sent w @ [rq]) = Inr rc \<and> IsRetriableHTTPError rc)")
    case True
    let ?w2 = "w\<lparr>sent := sent w @ [rq], slept := slept w @ [wait invoke_options n]\<rparr>"
    from retry_again [OF True n4] Suc.prems(1)
    have call: "Retrying_call invoke_options (http_request e rq) (Suc n) ?w2 = (Inr r, w')"
      by simp
    have m: "m = 5 - Suc n" using Suc.hyps(2) by simp
    have "1 \<le> Suc n" "Suc n \<le> 5" using n4 by simp_all
    from Suc.hyps(1) [OF m call this] show ?thesis .
  next
    case False
    then obtain rc where Inr: "server e (sent w @ [rq]) = Inr rc" and nr: "\<not> IsRetriableHTTPError rc"
      by (cases "server e (sent w @ [rq])") auto
    from retry_accept [OF Inr nr, of n] Suc.prems(1) nr show ?thesis by simp
  qed
qed

lemma retriable_statuses:
  "IsRetriableHTTPError (resp, cont) \<longleftrightarrow> status resp \<in> {429, 408, 503, 504}"
  by (auto simp: IsRetriableHTTPError_def TOO_MANY_REQUESTS_ERROR_def REQUEST_TIMEOUT_def
       SERVICE_UNAVAILABLE_def GATEWAY_TIMEOUT_def)

lemma after_attempts_0: "after_attempts w rq 0 = w"
  by (simp add: after_attempts_def)

lemma retry_step:
  assumes "rejected (server e (sent w @ replicate (Suc k) rq))" and "Suc k < 5"
  shows "Retrying_call invoke_options (http_request e rq) (Suc k) (after_attempts w rq k) =
         Retrying_call invoke_options (http_request e rq) (Suc (Suc k))
           (after_attempts w rq (Suc k))"
proof -
  have s: "sent (after_attempts w rq k) @ [rq] = sent w @ replicate (Suc k) rq"
    by (simp add: after_attempts_def replicate_append_same)
  have "server e (sent (after_attempts w rq k) @ [rq]) =
          Inl (projl (server e (sent (after_attempts w rq k) @ [rq]))) \<or>
        (\<exists>r. server e (sent (after_attempts w rq k) @ [rq]) = Inr r \<and> IsRetriableHTTPError r)"
    using assms(1) unfolding s rejected_def
    by (cases "server e (sent w @ replicate (Suc k) rq)") auto
  from retry_again [OF this assms(2)]
  show ?thesis
    by (simp add: after_attempts_def replicate_append_same)
qed

lemma retry_exhaust:
  assumes "\<forall>k<5. rejected (server e (sent w @ replicate (Suc k) rq))"
  shows "Retrying_call invoke_options (http_request e rq) 1 w =
         ((case server e (sent w @ replicate 5 rq) of
             Inl exn \<Rightarrow> Inl exn
           | Inr (resp, cont) \<Rightarrow> Inl (RetryError 5 resp cont)),
          w\<lparr>sent := sent w @ replicate 5 rq,
            slept := slept w @ [4000, 8000, 16000, 32000]\<rparr>)"
proof -
  let ?R = "Retrying_call invoke_options (http_request e rq)"
  have r: "rejected (server e (sent w @ replicate (Suc k) rq))" if "k < 5" for k
    using assms that by blast
  have "?R 1 w = ?R (Suc 0) (after_attempts w rq 0)"
    by (simp add: after_attempts_0)
  also have "\<dots> = ?R (Suc (Suc 0)) (after_attempts w rq (Suc 0))"
    by (rule retry_step [OF r]) simp_all
  also have "\<dots> = ?R (Suc (Suc (Suc 0))) (after_attempts w rq (Suc (Suc 0)))"
    by (rule retry_step [OF r]) simp_all
  also have "\<dots> = ?R (Suc (Suc (Suc (Suc 0)))) (after_attempts w rq (Suc (Suc (Suc 0))))"
    by (rule retry_step [OF r]) simp_all
  also have "\<dots> = ?R (Suc (Suc (Suc (Suc (Suc 0))))) (after_attempts w rq (Suc (Suc (Suc (Suc 0)))))"
    by (rule retry_step [OF r]) simp_all
  finally have five: "?R 1 w = ?R 5 (after_attempts w rq 4)"
    by (simp add: eval_nat_numeral)
  have s: "sent (after_attempts w rq 4) @ [rq] = sent w @ replicate 5 rq"
    by (simp add: after_attempts_def eval_nat_numeral)
  have sl: "slept (after_attempts w rq 4) = slept w @ [4000, 8000, 16000, 32000]"
    by (simp add: after_attempts_def wait_formula eval_nat_numeral upt_rec)
  have rej: "rejected (server e (sent w @ replicate 5 rq))"
    using r [of 4] by (simp add: eval_nat_numeral)
  show ?thesis
  proof (cases "server e (sent w @ replicate 5 rq)")
    case (Inl x)
    then have "server e (sent (after_attempts w rq 4) @ [rq]) = Inl x" by (simp add: s)
    from retry_stop_exception [OF this, of 5] five Inl sl s
    show ?thesis by (simp add: after_attempts_def)
  next
    case (Inr rc)
    obtain resp cont where rc: "rc = (resp, cont)" by (cases rc)
    from Inr rc have a: "server e (sent (after_attempts w rq 4) @ [rq]) = Inr (resp, cont)"
      by (simp add: s)
    from rej Inr rc have b: "IsRetriableHTTPError (resp, cont)" by (simp add: rejected_def)
    from retry_stop_result [OF a b, of 5] five Inr rc sl s
    show ?thesis by (simp add: after_attempts_def)
  qed
qed

lemma server_example: "server (example_env srv) = srv"
  by (simp add: example_env_def)

subsection \<open>Retriable statuses and exceptions\<close>

text \<open>
  C1, as stated, fails: against a server that always answers 503 the wrapper makes
  five attempts, sleeps 4 s, 8 s, 16 s and 32 s between them, and then raises
  \<^verbatim>\<open>RetryError\<close> instead of returning the last response.
\<close>

theorem retriable_statuses_not_returned_counterexample:
  "InvokeHttpRequest (example_env (always (reply 503 [] ''busy''))) ''https://h/studies'' ''GET''
     (Some 3600) None None new_world
   = (Inl (RetryError 5 \<lparr>status = 503, resp_headers = []\<rparr> ''busy''),
      \<lparr>sent = replicate 5 (get_request ''https://h/studies'' (Some 3600)),
       slept = [4000, 8000, 16000, 32000], uuid_drawn = 0\<rparr>)"
  unfolding InvokeHttpRequest_def
  by (subst retry_exhaust)
     (simp_all add: rejected_def retriable_statuses example_env_def always_def reply_def
        new_world_def get_request_def)

text \<open>
  C1, amended. When every response has a status in {429, 408, 503, 504}, the wrapper
  issues exactly 5 attempts, the wait before attempt \<open>k\<close> (for \<open>k\<close> from 2 to 5) is
  \<open>min (2000 * 2 ^ (k - 1)) 32000\<close> milliseconds, and after the fifth attempt the
  wrapper raises \<^verbatim>\<open>RetryError\<close> carrying the last response and content.
\<close>

theorem retriable_statuses_exhaust_attempts:
  assumes "\<forall>reqs. \<exists>resp cont. server e reqs = Inr (resp, cont) \<and>
                                status resp \<in> {429, 408, 503, 504}"
    and "rq = \<lparr>rq_uri = url, rq_method = meth, rq_timeout = timeout, rq_body = body,
                rq_headers = hdrs\<rparr>"
  shows "\<exists>resp cont.
           server e (sent w @ replicate 5 rq) = Inr (resp, cont) \<and>
           InvokeHttpRequest e url meth timeout body hdrs w =
             (Inl (RetryError 5 resp cont),
              w\<lparr>sent := sent w @ replicate 5 rq,
                slept := slept w @ map (\<lambda>k. min (2000 * 2 ^ (k - 1)) 32000) [2, 3, 4, 5]\<rparr>)"
proof -
  from assms(1) obtain resp cont where
    last: "server e (sent w @ replicate 5 rq) = Inr (resp, cont)" by blast
  have "\<forall>k<5. rejected (server e (sent w @ replicate (Suc k) rq))"
  proof (intro allI impI)
    fix k
    from assms(1) obtain r c where
      "server e (sent w @ replicate (Suc k) rq) = Inr (r, c)" "status r \<in> {429, 408, 503, 504}"
      by blast
    then show "rejected (server e (sent w @ replicate (Suc k) rq))"
      by (simp add: rejected_def retriable_statuses)
  qed
  from retry_exhaust [OF this] last
  have "InvokeHttpRequest e url meth timeout body hdrs w =
          (Inl (RetryError 5 resp cont),
           w\<lparr>sent := sent w @ replicate 5 rq,
             slept := slept w @ [4000, 8000, 16000, 32000]\<rparr>)"
    by (simp add: InvokeHttpRequest_def assms(2))
  with last show ?thesis by simp
qed

theorem retriable_statuses_exhaust_attempts_witness:
  "InvokeHttpRequest (example_env (always (reply 429 [] ''slow down''))) ''https://h/studies''
     ''DELETE'' None None None new_world
   = (Inl (RetryError 5 \<lparr>status = 429, resp_headers = []\<rparr> ''slow down''),
      new_world\<lparr>sent := replicate 5 \<lparr>rq_uri = ''https://h/studies'', rq_method = ''DELETE'',
                                        rq_timeout = None, rq_body = None, rq_headers = None\<rparr>,
                 slept := [4000, 8000, 16000, 32000]\<rparr>)"
  using retriable_statuses_exhaust_attempts
     [of "example_env (always (reply 429 [] ''slow down''))"
         "\<lparr>rq_uri = ''https://h/studies'', rq_method = ''DELETE'', rq_timeout = None,
           rq_body = None, rq_headers = None\<rparr>"
         "''https://h/studies''" "''DELETE''" None None None new_world]
  by (simp add: server_example always_def reply_def new_world_def)




subsection \<open>The operations under a persistent retriable status\<close>

lemma invoke_persistent_503:
  "InvokeHttpRequest (example_env (always (reply 503 [] ''busy''))) url meth timeout body hdrs w
   = (Inl (RetryError 5 \<lparr>status = 503, resp_headers = []\<rparr> ''busy''),
      w\<lparr>sent := sent w @ replicate 5 \<lparr>rq_uri = url, rq_method = meth, rq_timeout = timeout,
                                         rq_body = body, rq_headers = hdrs\<rparr>,
        slept := slept w @ [4000, 8000, 16000, 32000]\<rparr>)"
  unfolding InvokeHttpRequest_def
  by (subst retry_exhaust)
     (simp_all add: rejected_def retriable_statuses server_example always_def reply_def)

text \<open>
  C4 fails on the code for the retriable statuses. Against a server that answers
  every attempt with 503, a status with \<open>503 div 100 \<noteq> 2\<close>, each of QidoRs, WadoRs,
  StowRs, StowRsJson and DeleteRs raises \<^verbatim>\<open>RetryError\<close> after the fifth attempt; the
  status check is never reached and no \<^verbatim>\<open>UnexpectedResponseError\<close> is raised, where
  the docstrings of the operations promise \<^verbatim>\<open>UnexpectedResponseError\<close> for a status
  that is not success.
\<close>

theorem persistent_503_raises_RetryError:
  "(503 :: int) div 100 \<noteq> 2 \<and>
   fst (QidoRs (example_env (always (reply 503 [] ''busy''))) ''https://h/studies''
          (Some 3600) new_world)
     = Inl (RetryError 5 \<lparr>status = 503, resp_headers = []\<rparr> ''busy'') \<and>
   fst (WadoRs (example_env (always (reply 503 [] ''busy''))) ''https://h/studies''
          None (Some 3600) new_world)
     = Inl (RetryError 5 \<lparr>status = 503, resp_headers = []\<rparr> ''busy'') \<and>
   fst (StowRs (example_env (always (reply 503 [] ''busy''))) ''https://h/studies''
          [''abc''] (Some 3600) new_world)
     = Inl (RetryError 5 \<lparr>status = 503, resp_headers = []\<rparr> ''busy'') \<and>
   fst (StowRsJson (example_env (always (reply 503 [] ''busy''))) ''https://h/studies''
          [JObj []] [] (Some 3600) new_world)
     = Inl (RetryError 5 \<lparr>status = 503, resp_headers = []\<rparr> ''busy'') \<and>
   fst (DeleteRs (example_env (always (reply 503 [] ''busy''))) ''https://h/studies''
          (Some 3600) new_world)
     = Inl (RetryError 5 \<lparr>status = 503, resp_headers = []\<rparr> ''busy'') \<and>
   cites_status_and_url
     (fst (QidoRs (example_env (always (reply 503 [] ''busy''))) ''https://h/studies''
             (Some 3600) new_world)) 503 ''https://h/studies'' = False"
  by (simp add: QidoRs_def WadoRs_def StowRs_def StowRsJson_def StowRsJson_parts_def
        StowRs_priv_def DeleteRs_def Let_def invoke_persistent_503)

section \<open>Multipart encoding followed by decoding\<close>

lemma split_char_nonempty: "split_char c s \<noteq> []"
  by (induction s) (auto split: list.splits)

lemma split_char_nosep: "c \<notin> set s \<Longrightarrow> split_char c s = [s]"
  by (induction s) auto

lemma split_char_append_sep:
  "c \<notin> set s1 \<Longrightarrow> split_char c (s1 @ c # s2) = s1 # split_char c s2"
  by (induction s1) auto

lemma strip_with_ends:
  assumes "s \<noteq> []" and "\<not> p (hd s)" and "\<not> p (last s)"
  shows "strip_with p s = s"
proof -
  from assms have a: "dropWhile p s = s" by (cases s) auto
  from assms have "rev s \<noteq> []" "\<not> p (hd (rev s))" by (simp_all add: hd_rev)
  then have "dropWhile p (rev s) = rev s" by (cases "rev s") auto
  with a show ?thesis by (simp add: strip_with_def)
qed

lemma strip_quotes:
  assumes "DQ \<notin> set B"
  shows "strip_with (\<lambda>c. c = DQ) (DQ # B @ [DQ]) = B"
proof (cases "B = []")
  case True
  then show ?thesis by (simp add: strip_with_def)
next
  case False
  with assms have "hd B \<noteq> DQ" "last B \<noteq> DQ"
    using hd_in_set [of B] last_in_set [of B] by metis+
  with False have b: "strip_with (\<lambda>c. c = DQ) B = B" by (intro strip_with_ends) auto
  from False \<open>hd B \<noteq> DQ\<close> have "dropWhile (\<lambda>c. c = DQ) (B @ [DQ]) = B @ [DQ]"
    by (cases B) auto
  moreover from False \<open>last B \<noteq> DQ\<close> have "dropWhile (\<lambda>c. c = DQ) (rev B) = rev B"
    by (cases "rev B") (auto simp: last_rev dest: arg_cong [where f = hd])
  ultimately show ?thesis by (simp add: strip_with_def)
qed

lemma encode_with_ascii:
  "\<forall>c \<in> set s. (of_char c :: nat) < 128 \<Longrightarrow> encode_with s = s"
  by (induction s) (auto simp: encode_with_def utf8_char_def)

lemma uuid_chars_ascii: "c \<in> uuid_chars \<Longrightarrow> (of_char c :: nat) < 128"
  by (auto simp: uuid_chars_def)

lemma uuid_chars_not:
  "CHR 0x0D \<notin> uuid_chars" "DQ \<notin> uuid_chars" "CHR '';'' \<notin> uuid_chars"
  "CHR 0x0A \<notin> uuid_chars"
  by (simp_all add: uuid_chars_def DQ_def)

lemma split_content_type:
  assumes "set B \<subseteq> uuid_chars"
  shows "split_char CHR '';'' (stow_content_type ''dicom'' B) =
           [''multipart/related'', '' type='' @ [DQ] @ ''application/dicom'' @ [DQ],
            '' boundary='' @ [DQ] @ B @ [DQ]]"
proof -
  from assms uuid_chars_not(3) have "CHR '';'' \<notin> set B" by blast
  then have last: "split_char CHR '';'' ('' boundary='' @ [DQ] @ B @ [DQ])
                     = ['' boundary='' @ [DQ] @ B @ [DQ]]"
    by (intro split_char_nosep) (simp add: DQ_def)
  have shape: "stow_content_type ''dicom'' B =
      ''multipart/related'' @ CHR '';'' #
      ('' type='' @ [DQ] @ ''application/dicom'' @ [DQ]) @ CHR '';'' #
      ('' boundary='' @ [DQ] @ B @ [DQ])"
    by (simp add: stow_content_type_def)
  have "split_char CHR '';'' (stow_content_type ''dicom'' B) =
      ''multipart/related'' # split_char CHR '';''
         (('' type='' @ [DQ] @ ''application/dicom'' @ [DQ]) @ CHR '';'' #
          ('' boundary='' @ [DQ] @ B @ [DQ]))"
    unfolding shape by (rule split_char_append_sep) simp
  also have "split_char CHR '';''
         (('' type='' @ [DQ] @ ''application/dicom'' @ [DQ]) @ CHR '';'' #
          ('' boundary='' @ [DQ] @ B @ [DQ])) =
      ('' type='' @ [DQ] @ ''application/dicom'' @ [DQ]) #
      split_char CHR '';'' ('' boundary='' @ [DQ] @ B @ [DQ])"
    by (rule split_char_append_sep) (simp add: DQ_def)
  finally show ?thesis by (simp only: last)
qed

lemma strip_boundary_item:
  "strip_with str_space ('' boundary='' @ [DQ] @ B @ [DQ]) = ''boundary='' @ [DQ] @ B @ [DQ]"
  by (simp add: strip_with_def str_space_def DQ_def)

lemma strip_type_item:
  "strip_with str_space ('' type='' @ [DQ] @ ''application/dicom'' @ [DQ])
     = ''type='' @ [DQ] @ ''application/dicom'' @ [DQ]"
  by (simp add: strip_with_def str_space_def DQ_def)

lemma strip_mimetype:
  "strip_with str_space ''multipart/related'' = ''multipart/related''"
  by (simp add: strip_with_def str_space_def)

lemma find_boundary_stow:
  assumes "set B \<subseteq> uuid_chars"
  shows "find_boundary (stow_content_type ''dicom'' B) = Inr (Some B)"
proof -
  from assms uuid_chars_not(2) have dq: "DQ \<notin> set B" by blast
  from assms have enc: "encode_with B = B"
    by (intro encode_with_ascii) (auto dest: uuid_chars_ascii)
  have attr1: "split_on_find (''type='' @ [DQ] @ ''application/dicom'' @ [DQ]) ''=''
                 = (''type'', [DQ] @ ''application/dicom'' @ [DQ])"
    by (simp add: split_on_find_def DQ_def)
  have attr2: "split_on_find (''boundary='' @ [DQ] @ B @ [DQ]) ''=''
                 = (''boundary'', DQ # B @ [DQ])"
    by (simp add: split_on_find_def)
  have low: "lower ''multipart'' = ''multipart''" "lower ''boundary'' = ''boundary''"
    "lower ''type'' = ''type''"
    by (simp_all add: lower_def lower_char_def)
  have major: "split_char CHR ''/'' ''multipart/related'' = [''multipart'', ''related'']"
    using split_char_append_sep [of "CHR ''/''" "''multipart''" "''related''"]
      split_char_nosep [of "CHR ''/''" "''related''"] by simp
  show ?thesis
    unfolding find_boundary_def split_content_type [OF assms]
    by (simp only: list.map strip_boundary_item strip_type_item strip_mimetype list.case major
          low attr1 attr2 fold_simps prod.case strip_quotes [OF dq] enc if_True if_False
          refl simp_thms)
qed

lemma prefix_starts_with:
  assumes "prefix (c # t) (q @ (c # t) @ v)" and "c \<notin> set t" and "q \<noteq> []"
  shows "prefix (c # t) q"
proof -
  from assms(1) consider "prefix (c # t) q"
    | us where "c # t = q @ us" "prefix us ((c # t) @ v)"
    using prefix_append [of "c # t" q "(c # t) @ v"] by blast
  then show ?thesis
  proof cases
    case 1
    then show ?thesis .
  next
    case 2
    show ?thesis
    proof (cases us)
      case Nil
      with 2(1) show ?thesis by simp
    next
      case (Cons u us')
      with 2(2) have "u = c" by simp
      from assms(3) obtain q0 q' where "q = q0 # q'" by (cases q) auto
      with 2(1) Cons \<open>u = c\<close> have "t = q' @ c # us'" by simp
      with assms(2) show ?thesis by simp
    qed
  qed
qed

lemma sublist_skip:
  "sublist (c # t) (xs @ ys) \<Longrightarrow> c \<notin> set xs \<Longrightarrow> sublist (c # t) ys"
  by (induction xs) (auto simp: sublist_Cons_right)

lemma split_sep_first:
  assumes "c \<notin> set t" and "\<not> sublist (c # t) u"
  shows "split_sep (c # t) acc (u @ (c # t) @ v) = (rev acc @ u) # split_sep (c # t) [] v"
  using assms(2)
proof (induction u arbitrary: acc)
  case Nil
  then show ?case by simp
next
  case (Cons x u)
  have "\<not> prefix (c # t) ((x # u) @ (c # t) @ v)"
  proof
    assume "prefix (c # t) ((x # u) @ (c # t) @ v)"
    from prefix_starts_with [OF this assms(1)] have "prefix (c # t) (x # u)" by simp
    then have "sublist (c # t) (x # u)" by (rule prefix_imp_sublist)
    with Cons.prems show False by simp
  qed
  moreover from Cons.prems have "\<not> sublist (c # t) u"
    by (auto simp: sublist_Cons_right)
  ultimately show ?case
    using Cons.IH [of "x # acc"] by simp
qed

lemma split_sep_short:
  "length s < length sep \<Longrightarrow> split_sep sep acc s = [rev acc @ s]"
proof (induction s arbitrary: acc)
  case Nil
  then show ?case by simp
next
  case (Cons x s)
  from Cons.prems have "\<not> prefix sep (x # s)"
    by (auto dest: prefix_length_le)
  with Cons show ?case by simp
qed

lemma render_dicom_headers:
  "render_headers \<lparr>rf_name = n, rf_data = b,
                    rf_headers = [(''Content-Type'', ''application/dicom'')]\<rparr>
     = dicom_line @ CRLF @ CRLF"
  by (simp add: render_headers_def sort_keys_def dicom_line_def)

lemma encode_with_dicom_block:
  "encode_with (dicom_line @ CRLF @ CRLF) = dicom_line @ CRLF @ CRLF"
  by code_simp

lemma encode_single:
  "encode_multipart_formdata (StowRs_parts [b]) B =
     (''--'' @ B @ CRLF @ dicom_line @ CRLF @ CRLF @ b) @ (CHR 0x0D # CHR 0x0A # ''--'' @ B) @
     (''--'' @ CRLF)"
  by (simp add: encode_multipart_formdata_def StowRs_parts_def encode_field_def
        render_dicom_headers encode_with_dicom_block)
     (simp add: CRLF_def)

lemma no_delimiter_in_first_part:
  assumes "CHR 0x0D \<notin> set B"
    and "\<not> sublist (CHR 0x0D # CHR 0x0A # ''--'' @ B) (CRLF @ b)"
  shows "\<not> sublist (CHR 0x0D # CHR 0x0A # ''--'' @ B)
            (''--'' @ B @ CRLF @ dicom_line @ CRLF @ CRLF @ b)"
proof
  let ?sep = "CHR 0x0D # CHR 0x0A # ''--'' @ B"
  assume "sublist ?sep (''--'' @ B @ CRLF @ dicom_line @ CRLF @ CRLF @ b)"
  then have "sublist ?sep ((''--'' @ B) @ (CRLF @ dicom_line @ CRLF @ CRLF @ b))" by simp
  from sublist_skip [OF this] assms(1)
  have "sublist ?sep (CRLF @ dicom_line @ CRLF @ CRLF @ b)" by simp
  then have "sublist ?sep ((CHR 0x0A # dicom_line) @ (CRLF @ CRLF @ b))"
    by (simp add: CRLF_def sublist_Cons_right dicom_line_def)
  from sublist_skip [OF this]
  have "sublist ?sep (CRLF @ CRLF @ b)" by (simp add: dicom_line_def)
  then have "sublist ?sep ([CHR 0x0A] @ (CRLF @ b))"
    by (simp add: CRLF_def sublist_Cons_right)
  from sublist_skip [OF this]
  have "sublist ?sep (CRLF @ b)" by simp
  with assms(2) show False by simp
qed

lemma split_single_body:
  assumes "CHR 0x0D \<notin> set B" and "B \<noteq> []"
    and "\<not> sublist (CRLF @ ''--'' @ B) (CRLF @ b)"
  shows "split_sep (CRLF @ ''--'' @ B) [] (encode_multipart_formdata (StowRs_parts [b]) B)
           = [''--'' @ B @ CRLF @ dicom_line @ CRLF @ CRLF @ b, ''--'' @ CRLF]"
proof -
  let ?sep = "CHR 0x0D # CHR 0x0A # ''--'' @ B"
  have sep: "CRLF @ ''--'' @ B = ?sep" by (simp add: CRLF_def)
  from assms(3) have no: "\<not> sublist ?sep (CRLF @ b)" unfolding sep .
  have notin: "CHR 0x0D \<notin> set (CHR 0x0A # ''--'' @ B)" using assms(1) by simp
  have short: "split_sep ?sep [] (''--'' @ CRLF) = [''--'' @ CRLF]"
    using split_sep_short [of "''--'' @ CRLF" ?sep "[]"] assms(2)
    by (cases B) (simp_all add: CRLF_def)
  from split_sep_first [OF notin no_delimiter_in_first_part [OF assms(1) no], of "[]" "''--'' @ CRLF"]
  show ?thesis
    unfolding sep encode_single by (simp only: short rev.simps append_Nil)
qed

lemma body_part_single:
  assumes "header_parser e dicom_line = Inr [(''Content-Type'', ''application/dicom'')]"
  shows "body_part_init e (CRLF @ dicom_line @ CRLF @ CRLF @ b) =
           Inr \<lparr>content = b, part_headers = [(''Content-Type'', ''application/dicom'')]\<rparr>"
proof -
  have f: "py_find (CRLF @ CRLF) (CRLF @ dicom_line @ CRLF @ CRLF @ b) = Some 33"
    by (simp add: CRLF_def dicom_line_def)
  have s: "split_on_find (CRLF @ dicom_line @ CRLF @ CRLF @ b) (CRLF @ CRLF)
             = (CRLF @ dicom_line, b)"
    unfolding split_on_find_def f by (simp add: CRLF_def dicom_line_def)
  show ?thesis
    unfolding body_part_init_def f s
    by (simp add: CRLF_def dicom_line_def bytes_space_def assms [unfolded dicom_line_def])
qed

lemma fix_first_part_marker: "fix_first_part (m @ rest) m = rest"
  by (simp add: fix_first_part_def)

lemma test_first_part:
  assumes "B \<noteq> []" and "CHR 0x0D \<notin> set B"
  shows "test_part ((''--'' @ B) @ rest)"
  using assms by (cases B) (auto simp: test_part_def CRLF_def)

lemma test_last_part: "test_part (''--'' @ CRLF) = False"
  by (simp add: test_part_def CRLF_def)

lemma bytes_lower_content_type:
  "bytes_lower ''Content-Type'' = ''content-type''"
  "bytes_lower ''content-type'' = ''content-type''"
  by code_simp+

text \<open>
  C9, amended. For a non-empty boundary made of UUID characters and a byte buffer
  \<open>b\<close> such that the delimiter CR LF \<^verbatim>\<open>--\<close> boundary does not occur in
  CR LF \<open>b\<close> (it neither starts \<open>b\<close> after the header block nor occurs inside
  \<open>b\<close>), encoding the single part as StowRs does and decoding the body with the
  content type header of the request yields exactly one part, with payload \<open>b\<close> and
  content type \<^verbatim>\<open>application/dicom\<close>. The header parser is only assumed to read
  the one header line of the part.
\<close>

theorem multipart_roundtrip:
  assumes "boundary \<noteq> []" and "set boundary \<subseteq> uuid_chars"
    and "\<not> sublist (CRLF @ ''--'' @ boundary) (CRLF @ b)"
    and "header_parser e ''Content-Type: application/dicom''
           = Inr [(''Content-Type'', ''application/dicom'')]"
  shows "MultipartDecoder e (encode_multipart_formdata (StowRs_parts [b]) boundary)
           (stow_content_type ''dicom'' boundary)
         = Inr [\<lparr>content = b, part_headers = [(''Content-Type'', ''application/dicom'')]\<rparr>] \<and>
         part_header \<lparr>content = b, part_headers = [(''Content-Type'', ''application/dicom'')]\<rparr>
           ''content-type'' = Some ''application/dicom''"
proof
  from assms(2) uuid_chars_not(1) have cr: "CHR 0x0D \<notin> set boundary" by blast
  define m where "m = ''--'' @ boundary"
  define rest where "rest = CRLF @ dicom_line @ CRLF @ CRLF @ b"
  define tail where "tail = ''--'' @ CRLF"
  define body where "body = encode_multipart_formdata (StowRs_parts [b]) boundary"
  have pieces: "split_sep (CRLF @ m) [] body = [m @ rest, tail]"
    using split_single_body [OF cr assms(1) assms(3)]
    by (simp add: m_def rest_def tail_def body_def)
  have t1: "test_part (m @ rest)"
    unfolding m_def by (rule test_first_part [OF assms(1) cr])
  have t2: "\<not> test_part tail"
    unfolding tail_def by (simp only: test_last_part simp_thms)
  have hp: "header_parser e dicom_line = Inr [(''Content-Type'', ''application/dicom'')]"
    using assms(4) by (simp add: dicom_line_def)
  have part: "body_part_init e (fix_first_part (m @ rest) m) =
      Inr \<lparr>content = b, part_headers = [(''Content-Type'', ''application/dicom'')]\<rparr>"
    unfolding fix_first_part_marker rest_def by (rule body_part_single [OF hp])
  have "parse_body e boundary body = body_parts e m (split_sep (CRLF @ m) [] body)"
    by (simp only: parse_body_def Let_def m_def)
  also have "\<dots> = Inr [\<lparr>content = b,
                          part_headers = [(''Content-Type'', ''application/dicom'')]\<rparr>]"
    unfolding pieces by (simp add: t1 t2 part)
  finally show "MultipartDecoder e (encode_multipart_formdata (StowRs_parts [b]) boundary)
           (stow_content_type ''dicom'' boundary)
         = Inr [\<lparr>content = b, part_headers = [(''Content-Type'', ''application/dicom'')]\<rparr>]"
    by (simp add: MultipartDecoder_def find_boundary_stow [OF assms(2)] body_def)
  show "part_header \<lparr>content = b, part_headers = [(''Content-Type'', ''application/dicom'')]\<rparr>
          ''content-type'' = Some ''application/dicom''"
    by (simp add: part_header_def bytes_lower_content_type)
qed

text \<open>
  C9, as stated, fails: a buffer that starts with \<^verbatim>\<open>--\<close> and the boundary is cut
  at the delimiter it forms with the header block's last CR LF, and the decoder
  raises instead of returning the buffer.
\<close>

theorem multipart_roundtrip_counterexample:
  "MultipartDecoder (example_env (always (reply 200 [] [])))
     (encode_multipart_formdata (StowRs_parts [''--'' @ example_uuid]) example_uuid)
     (stow_content_type ''dicom'' example_uuid)
   = Inl ImproperBodyPartContentException"
  by code_simp

lemma example_header_parser:
  "header_parser (example_env srv) ''Content-Type: application/dicom''
     = Inr [(''Content-Type'', ''application/dicom'')]"
  by (simp add: example_env_def)

theorem multipart_roundtrip_witness:
  "MultipartDecoder (example_env (always (reply 200 [] [])))
     (encode_multipart_formdata (StowRs_parts [''DICM-bytes'']) example_uuid)
     (stow_content_type ''dicom'' example_uuid)
   = Inr [\<lparr>content = ''DICM-bytes'',
           part_headers = [(''Content-Type'', ''application/dicom'')]\<rparr>] \<and>
   part_header \<lparr>content = ''DICM-bytes'',
                 part_headers = [(''Content-Type'', ''application/dicom'')]\<rparr>
     ''content-type'' = Some ''application/dicom''"
proof -
  have 1: "example_uuid \<noteq> []" by (simp add: example_uuid_def)
  have 2: "set example_uuid \<subseteq> uuid_chars" by (simp add: example_uuid_def uuid_chars_def)
  have 3: "\<not> sublist (CRLF @ ''--'' @ example_uuid) (CRLF @ ''DICM-bytes'')"
    by code_simp
  from multipart_roundtrip [OF 1 2 3 example_header_parser]
  show ?thesis .
qed

section \<open>The parts of a Store call\<close>

lemma bulkdata_parts_valid:
  "\<forall>b \<in> set bs. valid_mime (content_type b) \<Longrightarrow>
   bulkdata_parts bs parts = Inr (parts @ map bulk_part bs)"
  by (induction bs arbitrary: parts) (auto simp: Let_def valid_mime_def bulk_part_def)

lemma StowRs_priv_sent:
  "\<exists>k. 1 \<le> k \<and> k \<le> 5 \<and>
       sent (snd (StowRs_priv e stow_url application_type parts timeout w)) =
         sent w @ replicate k (stow_request e w stow_url application_type parts timeout)"
proof -
  let ?rq = "stow_request e w stow_url application_type parts timeout"
  let ?w0 = "w\<lparr>uuid_drawn := Suc (uuid_drawn w)\<rparr>"
  obtain r w1 where call: "Retrying_call invoke_options (http_request e ?rq) 1 ?w0 = (r, w1)"
    by (cases "Retrying_call invoke_options (http_request e ?rq) 1 ?w0")
  from Retrying_call_sent [OF call]
  obtain k where k: "1 \<le> k" "k + 1 \<le> 6" "sent w1 = sent ?w0 @ replicate k ?rq" by auto
  have "snd (StowRs_priv e stow_url application_type parts timeout w) = w1"
    using call
    by (cases r)
       (auto simp: StowRs_priv_def Let_def InvokeHttpRequest_def stow_request_def
          split: prod.splits)
  with k show ?thesis by (intro exI [of _ k]) simp
qed

lemma encode_dicom_parts:
  "encode_multipart_formdata (StowRs_parts dcmbytes_list) boundary =
     concat (map (\<lambda>dcmbytes. ''--'' @ boundary @ CRLF @ ''Content-Type: application/dicom'' @
                               CRLF @ CRLF @ dcmbytes @ CRLF) dcmbytes_list) @
     ''--'' @ boundary @ ''--'' @ CRLF"
proof -
  have "map (encode_field boundary) (StowRs_parts dcmbytes_list) =
        map (\<lambda>dcmbytes. ''--'' @ boundary @ CRLF @ ''Content-Type: application/dicom'' @
                          CRLF @ CRLF @ dcmbytes @ CRLF) dcmbytes_list"
    by (simp add: StowRs_parts_def encode_field_def render_dicom_headers
          encode_with_dicom_block comp_def)
       (simp add: dicom_line_def)
  then show ?thesis by (simp add: encode_multipart_formdata_def)
qed

text \<open>
  C2, amended. StowRs makes one \<^verbatim>\<open>application/dicom\<close> part per byte buffer, in
  order, each carrying its buffer unchanged, and the encoded body is the sequence of
  these parts between boundary lines. StowRsJson, when every bulk data content type
  is of the form type/sub-type, makes exactly one \<^verbatim>\<open>application/dicom+json\<close> part,
  whose payload is the JSON array of all metadata dictionaries, followed by one part
  per bulk data entry with that entry's bytes. In both cases every request sent (one
  to five attempts) carries the encoding of exactly these parts.
\<close>

theorem Store_parts:
  "map rf_data (StowRs_parts dcmbytes_list) = map Bytes dcmbytes_list \<and>
   (\<forall>p \<in> set (StowRs_parts dcmbytes_list).
      rf_headers p = [(''Content-Type'', ''application/dicom'')]) \<and>
   encode_multipart_formdata (StowRs_parts dcmbytes_list) boundary =
     concat (map (\<lambda>dcmbytes. ''--'' @ boundary @ CRLF @ ''Content-Type: application/dicom'' @
                               CRLF @ CRLF @ dcmbytes @ CRLF) dcmbytes_list) @
     ''--'' @ boundary @ ''--'' @ CRLF \<and>
   (\<exists>k. 1 \<le> k \<and> k \<le> 5 \<and>
      sent (snd (StowRs e stow_url dcmbytes_list timeout w)) =
        sent w @ replicate k
          (stow_request e w stow_url ''dicom'' (StowRs_parts dcmbytes_list) timeout)) \<and>
   ((\<forall>b \<in> set bulkdata_list. valid_mime (content_type b)) \<longrightarrow>
      StowRsJson_parts e dicom_dict_list bulkdata_list =
        Inr (json_part e dicom_dict_list # map bulk_part bulkdata_list) \<and>
      (\<exists>k. 1 \<le> k \<and> k \<le> 5 \<and>
         sent (snd (StowRsJson e stow_url dicom_dict_list bulkdata_list timeout w)) =
           sent w @ replicate k
             (stow_request e w stow_url ''dicom+json''
                (json_part e dicom_dict_list # map bulk_part bulkdata_list) timeout)))"
proof (intro conjI impI)
  show "map rf_data (StowRs_parts dcmbytes_list) = map Bytes dcmbytes_list"
    by (simp add: StowRs_parts_def comp_def)
  show "\<forall>p \<in> set (StowRs_parts dcmbytes_list).
          rf_headers p = [(''Content-Type'', ''application/dicom'')]"
    by (auto simp: StowRs_parts_def)
  show "encode_multipart_formdata (StowRs_parts dcmbytes_list) boundary =
     concat (map (\<lambda>dcmbytes. ''--'' @ boundary @ CRLF @ ''Content-Type: application/dicom'' @
                               CRLF @ CRLF @ dcmbytes @ CRLF) dcmbytes_list) @
     ''--'' @ boundary @ ''--'' @ CRLF"
    by (rule encode_dicom_parts)
  show "\<exists>k. 1 \<le> k \<and> k \<le> 5 \<and>
      sent (snd (StowRs e stow_url dcmbytes_list timeout w)) =
        sent w @ replicate k
          (stow_request e w stow_url ''dicom'' (StowRs_parts dcmbytes_list) timeout)"
    unfolding StowRs_def by (rule StowRs_priv_sent)
next
  assume valid: "\<forall>b \<in> set bulkdata_list. valid_mime (content_type b)"
  from bulkdata_parts_valid [OF valid]
  show parts: "StowRsJson_parts e dicom_dict_list bulkdata_list =
        Inr (json_part e dicom_dict_list # map bulk_part bulkdata_list)"
    by (simp add: StowRsJson_parts_def json_part_def Let_def)
  show "\<exists>k. 1 \<le> k \<and> k \<le> 5 \<and>
         sent (snd (StowRsJson e stow_url dicom_dict_list bulkdata_list timeout w)) =
           sent w @ replicate k
             (stow_request e w stow_url ''dicom+json''
                (json_part e dicom_dict_list # map bulk_part bulkdata_list) timeout)"
    unfolding StowRsJson_def parts by (simp only: sum.case) (rule StowRs_priv_sent)
qed

lemma uuid4_example: "uuid4 (example_env srv) n = example_uuid"
  by (simp add: example_env_def)

lemma dumps_two: "json_dumps (example_env srv) (JArr [JObj [], JObj []]) = ''[{}, {}]''"
  by (simp add: example_env_def)

lemma encode_with_json_example:
  "encode_with (''Content-Type: application/dicom+json'' @ CRLF @ CRLF)
     = ''Content-Type: application/dicom+json'' @ CRLF @ CRLF"
  "encode_with ''[{}, {}]'' = ''[{}, {}]''"
  by code_simp+

lemma render_json_headers:
  "render_headers \<lparr>rf_name = n, rf_data = b,
                    rf_headers = [(''Content-Type'', ''application/dicom+json'')]\<rparr>
     = ''Content-Type: application/dicom+json'' @ CRLF @ CRLF"
  by (simp add: render_headers_def sort_keys_def)

lemma encoded_json_headers:
  "encode_with (render_headers \<lparr>rf_name = n, rf_data = b,
                    rf_headers = [(''Content-Type'', ''application/dicom+json'')]\<rparr>)
     = ''Content-Type: application/dicom+json'' @ CRLF @ CRLF"
  unfolding render_json_headers by (rule encode_with_json_example(1))

text \<open>
  C2, as stated, fails for StowRsJson: two metadata dictionaries yield one
  \<^verbatim>\<open>application/dicom+json\<close> part, not two.
\<close>

theorem StowRsJson_one_metadata_part_counterexample:
  "StowRsJson_parts (example_env (always (reply 200 [] []))) [JObj [], JObj []] []
     = Inr [\<lparr>rf_name = ''placeholder'', rf_data = Text ''[{}, {}]'',
             rf_headers = [(''Content-Type'', ''application/dicom+json'')]\<rparr>] \<and>
   sent (snd (StowRsJson (example_env (always (reply 200 [] []))) ''https://h/studies''
                [JObj [], JObj []] [] (Some 3600) new_world))
     = [\<lparr>rq_uri = ''https://h/studies'', rq_method = ''POST'', rq_timeout = Some 3600,
         rq_body = Some (''--'' @ example_uuid @ CRLF @
                         ''Content-Type: application/dicom+json'' @ CRLF @ CRLF @
                         ''[{}, {}]'' @ CRLF @
                         ''--'' @ example_uuid @ ''--'' @ CRLF),
         rq_headers = Some [(''content-type'', stow_content_type ''dicom+json'' example_uuid)]\<rparr>]"
  by (simp add: StowRsJson_def StowRsJson_parts_def StowRs_priv_def Let_def dumps_two
        uuid4_example invoke_example not_retriable_examples NotHttp2xx_def new_world_def
        encode_multipart_formdata_def encode_field_def encoded_json_headers
        encode_with_json_example(2))

lemma valid_image_png: "valid_mime ''image/png''"
  by (simp add: valid_mime_def)

theorem Store_parts_witness:
  "map rf_data (StowRs_parts [''abc'', ''de'']) = [Bytes ''abc'', Bytes ''de''] \<and>
   encode_multipart_formdata (StowRs_parts [''abc'', ''de'']) example_uuid =
     ''--'' @ example_uuid @ CRLF @ ''Content-Type: application/dicom'' @ CRLF @ CRLF @
     ''abc'' @ CRLF @
     ''--'' @ example_uuid @ CRLF @ ''Content-Type: application/dicom'' @ CRLF @ CRLF @
     ''de'' @ CRLF @
     ''--'' @ example_uuid @ ''--'' @ CRLF \<and>
   StowRsJson_parts (example_env (always (reply 200 [] []))) [JObj [], JObj []]
     [\<lparr>uri = ''https://h/bulk/1'', data = ''abc'', content_type = ''image/png''\<rparr>]
     = Inr [json_part (example_env (always (reply 200 [] []))) [JObj [], JObj []],
            bulk_part \<lparr>uri = ''https://h/bulk/1'', data = ''abc'', content_type = ''image/png''\<rparr>]"
  using Store_parts
     [of "[''abc'', ''de'']" example_uuid "example_env (always (reply 200 [] []))"
         "''https://h/studies''" "Some 3600" new_world
         "[\<lparr>uri = ''https://h/bulk/1'', data = ''abc'', content_type = ''image/png''\<rparr>]"
         "[JObj [], JObj []]"]
  by (simp add: valid_image_png)

end
